theory Spec2Isabelle
  imports
    Complex_Main
    "HOL-Library.AList"
    "HOL-Library.Char_ord"
    "HOL-Library.List_Lexorder"
    "HOL-Library.Sublist"
begin

section \<open>Python values used by \<^verbatim>\<open>tools/postgres_settings.py\<close>\<close>

text \<open>
  Strings are byte sequences (UTF-8). The order on \<^typ>\<open>char\<close> is the order of the
  character codes and the order on \<^typ>\<open>string\<close> is the lexicographic one over it, which
  is the order Python's \<^verbatim>\<open>sorted\<close> uses on \<^verbatim>\<open>str\<close>.

  A Python \<^verbatim>\<open>dict\<close> keeps its keys in insertion order. It is modelled as an
  association list with distinct keys; the assignment \<^verbatim>\<open>d[k] = v\<close> is
  \<^const>\<open>AList.update\<close> (an existing key keeps its position and gets the new value, a new
  key is appended), and \<^verbatim>\<open>d.get(k)\<close> is \<^const>\<open>map_of\<close>.
\<close>

type_synonym ('k, 'v) dict = "('k \<times> 'v) list"

text \<open>
  The exceptions the program can meet. \<open>ValueError s\<close> is raised by the builtins
  \<^verbatim>\<open>int\<close> and \<^verbatim>\<open>float\<close> on a literal \<open>s\<close> they cannot parse.
\<close>

datatype exn = ValueError string | TypeError | KeyError

text \<open>Lines the generator prints to the error stream (lines 66 and 92).\<close>

datatype warning =
    SettingNotFound string
  | CouldNotConvert string string

text \<open>
  One row of \<^verbatim>\<open>pg_settings\<close> as \<^verbatim>\<open>get_postgres_settings\<close> returns it
  (\<^verbatim>\<open>dict(row)\<close>, lines 14 and 18). The columns are text, nullable where the type is
  \<open>option\<close>; \<^verbatim>\<open>enumvals\<close> is a text array. The column \<^verbatim>\<open>name\<close> is the key
  of the enclosing dict and is not read again by the generator. A row always has its
  eight keys, so a row that is found is never empty and the test of line 65 fails
  exactly for a name that is not a key of the dict.
\<close>

record setting =
  short_desc :: string
  vartype :: string
  unit :: "string option"
  min_val :: "string option"
  max_val :: "string option"
  enumvals :: "string list option"
  reset_val :: "string option"

text \<open>
  The values stored in a property descriptor. \<open>'f\<close> is the type of Python floats;
  the program only produces them through the builtin \<^verbatim>\<open>float\<close>.
\<close>

datatype 'f pyval =
    PBool bool
  | PInt int
  | PFloat 'f
  | PStr string
  | PList "string list"

type_synonym 'f property = "(string, 'f pyval) dict"

record 'f category_schema =
  cs_type :: string
  cs_description :: string
  cs_properties :: "(string, 'f property) dict"

record 'f schema =
  s_type :: string
  s_description :: string
  s_properties :: "(string, 'f category_schema) dict"

section \<open>\<^verbatim>\<open>generate_schema_yaml\<close> (lines 40 to 111)\<close>

text \<open>
  The builtins \<^verbatim>\<open>int\<close> and \<^verbatim>\<open>float\<close> are parameters \<open>pint\<close> and \<open>pfloat\<close> of the
  model: \<open>None\<close> where the builtin raises \<^verbatim>\<open>ValueError\<close>.
\<close>

definition type_mapping :: "(string, string) dict" where
  "type_mapping =
     [(''bool'', ''boolean''),
      (''integer'', ''integer''),
      (''real'', ''number''),
      (''string'', ''string''),
      (''enum'', ''string'')]"

text \<open>Truth value of an optional string or list, as an \<^verbatim>\<open>if\<close> tests it.\<close>

definition truthy :: "'a list option \<Rightarrow> bool" where
  "truthy v = (case v of None \<Rightarrow> False | Some xs \<Rightarrow> xs \<noteq> [])"

definition and_then :: "exn + 'a \<Rightarrow> ('a \<Rightarrow> exn + 'b) \<Rightarrow> exn + 'b" where
  "and_then r f = (case r of Inl e \<Rightarrow> Inl e | Inr v \<Rightarrow> f v)"

text \<open>\<^verbatim>\<open>prop[key] = int(s)\<close> and \<^verbatim>\<open>prop[key] = float(s)\<close>, outside any \<^verbatim>\<open>try\<close>.\<close>

definition set_parsed ::
  "string \<Rightarrow> (string \<Rightarrow> 'n option) \<Rightarrow> ('n \<Rightarrow> 'f pyval) \<Rightarrow> string \<Rightarrow> 'f property \<Rightarrow> exn + 'f property" where
  "set_parsed key parse wrap s prop =
     (case parse s of
        None \<Rightarrow> Inl (ValueError s)
      | Some n \<Rightarrow> Inr (AList.update key (wrap n) prop))"

text \<open>Lines 80 to 92: the default, converted inside \<^verbatim>\<open>try ... except (ValueError, TypeError)\<close>.\<close>

definition add_default ::
  "(string \<Rightarrow> int option) \<Rightarrow> (string \<Rightarrow> 'f option) \<Rightarrow> string \<Rightarrow> setting \<Rightarrow> 'f property
     \<Rightarrow> warning list \<times> 'f property" where
  "add_default pint pfloat setting_name setting_data prop =
     (case reset_val setting_data of
        None \<Rightarrow> ([], prop)
      | Some rv \<Rightarrow>
          if vartype setting_data = ''bool'' then
            ([], AList.update ''default'' (PBool (rv = ''on'')) prop)
          else if vartype setting_data = ''integer'' then
            (case pint rv of
               Some n \<Rightarrow> ([], AList.update ''default'' (PInt n) prop)
             | None \<Rightarrow> ([CouldNotConvert rv setting_name], prop))
          else if vartype setting_data = ''real'' then
            (case pfloat rv of
               Some x \<Rightarrow> ([], AList.update ''default'' (PFloat x) prop)
             | None \<Rightarrow> ([CouldNotConvert rv setting_name], prop))
          else ([], AList.update ''default'' (PStr rv) prop))"

text \<open>
  Lines 95 to 102, with the source's \<^verbatim>\<open>if\<close> / \<^verbatim>\<open>if\<close> / \<^verbatim>\<open>elif\<close> / \<^verbatim>\<open>if\<close>
  shape: the \<^verbatim>\<open>elif\<close> of line 99 belongs to the \<^verbatim>\<open>if\<close> of line 97.
\<close>

definition add_bounds ::
  "(string \<Rightarrow> int option) \<Rightarrow> (string \<Rightarrow> 'f option) \<Rightarrow> setting \<Rightarrow> 'f property \<Rightarrow> exn + 'f property" where
  "add_bounds pint pfloat setting_data prop =
     and_then
       (if vartype setting_data = ''integer'' \<and> min_val setting_data \<noteq> None
        then set_parsed ''minimum'' pint PInt (the (min_val setting_data)) prop
        else Inr prop)
     (\<lambda>prop. and_then
       (if vartype setting_data = ''integer'' \<and> max_val setting_data \<noteq> None
        then set_parsed ''maximum'' pint PInt (the (max_val setting_data)) prop
        else if vartype setting_data = ''real'' \<and> min_val setting_data \<noteq> None
        then set_parsed ''minimum'' pfloat PFloat (the (min_val setting_data)) prop
        else Inr prop)
     (\<lambda>prop.
        if vartype setting_data = ''real'' \<and> max_val setting_data \<noteq> None
        then set_parsed ''maximum'' pfloat PFloat (the (max_val setting_data)) prop
        else Inr prop))"

text \<open>Lines 104 and 105.\<close>

definition add_enum :: "setting \<Rightarrow> 'f property \<Rightarrow> 'f property" where
  "add_enum setting_data prop =
     (if vartype setting_data = ''enum'' \<and> truthy (enumvals setting_data)
      then AList.update ''enum'' (PList (the (enumvals setting_data))) prop
      else prop)"

text \<open>
  Lines 69 to 105: the body of the inner loop for a setting found in the database data.
  The result is what was printed to the error stream, and the property or the exception
  that left the loop.
\<close>

definition make_prop ::
  "(string \<Rightarrow> int option) \<Rightarrow> (string \<Rightarrow> 'f option) \<Rightarrow> string \<Rightarrow> setting
     \<Rightarrow> warning list \<times> (exn + 'f property)" where
  "make_prop pint pfloat setting_name setting_data =
     (let pg_type = vartype setting_data;
          json_type = (case map_of type_mapping pg_type of Some t \<Rightarrow> t | None \<Rightarrow> ''string'');
          prop = AList.update ''type'' (PStr json_type) [];
          description = short_desc setting_data;
          description =
            (if truthy (unit setting_data)
             then description @ '' (Unit: '' @ the (unit setting_data) @ '')''
             else description);
          prop = AList.update ''description'' (PStr description) prop;
          (ws, prop) = add_default pint pfloat setting_name setting_data prop
      in (ws, and_then (add_bounds pint pfloat setting_data prop)
                (\<lambda>prop. Inr (add_enum setting_data prop))))"

text \<open>
  Lines 63 to 107: the loop over \<^verbatim>\<open>sorted(settings_list)\<close>, started on the names still
  to visit and the \<^verbatim>\<open>properties\<close> dict built so far.
\<close>

fun settings_loop ::
  "(string \<Rightarrow> int option) \<Rightarrow> (string \<Rightarrow> 'f option) \<Rightarrow> (string, setting) dict \<Rightarrow> string list
     \<Rightarrow> (string, 'f property) dict \<Rightarrow> warning list \<times> (exn + (string, 'f property) dict)" where
  "settings_loop pint pfloat db [] props = ([], Inr props)"
| "settings_loop pint pfloat db (setting_name # rest) props =
     (case map_of db setting_name of
        None \<Rightarrow>
          (let (ws, r) = settings_loop pint pfloat db rest props
           in (SettingNotFound setting_name # ws, r))
      | Some setting_data \<Rightarrow>
          (case make_prop pint pfloat setting_name setting_data of
             (ws, Inl e) \<Rightarrow> (ws, Inl e)
           | (ws, Inr prop) \<Rightarrow>
               (let (ws', r) =
                      settings_loop pint pfloat db rest (AList.update setting_name prop props)
                in (ws @ ws', r))))"

text \<open>Lines 56 to 109: the loop over \<^verbatim>\<open>categories.items()\<close>.\<close>

fun categories_loop ::
  "(string \<Rightarrow> int option) \<Rightarrow> (string \<Rightarrow> 'f option) \<Rightarrow> (string, setting) dict
     \<Rightarrow> (string, string list) dict \<Rightarrow> (string, 'f category_schema) dict
     \<Rightarrow> warning list \<times> (exn + (string, 'f category_schema) dict)" where
  "categories_loop pint pfloat db [] props = ([], Inr props)"
| "categories_loop pint pfloat db ((category_name, settings_list) # rest) props =
     (case settings_loop pint pfloat db (sort settings_list) [] of
        (ws, Inl e) \<Rightarrow> (ws, Inl e)
      | (ws, Inr cprops) \<Rightarrow>
          (let category_schema =
                 \<lparr>cs_type = ''object'',
                  cs_description = ''Settings for the '' @ category_name @ '' category.'',
                  cs_properties = cprops\<rparr>;
               (ws', r) =
                 categories_loop pint pfloat db rest
                   (AList.update category_name category_schema props)
           in (ws @ ws', r)))"

definition generate_schema_yaml ::
  "(string \<Rightarrow> int option) \<Rightarrow> (string \<Rightarrow> 'f option) \<Rightarrow> (string, setting) dict
     \<Rightarrow> (string, string list) dict \<Rightarrow> warning list \<times> (exn + 'f schema)" where
  "generate_schema_yaml pint pfloat db_settings_data categories =
     (case categories_loop pint pfloat db_settings_data categories [] of
        (ws, Inl e) \<Rightarrow> (ws, Inl e)
      | (ws, Inr props) \<Rightarrow>
          (ws, Inr \<lparr>s_type = ''object'',
                    s_description =
                      ''Schema for PostgreSQL configuration settings (postgresql.conf), grouped by category.'',
                    s_properties = props\<rparr>))"

section \<open>\<^verbatim>\<open>main\<close> after both sources are loaded (lines 147 to 186)\<close>

text \<open>
  How a run of \<^verbatim>\<open>main\<close> ends once \<^verbatim>\<open>db_settings_data\<close> and
  \<^verbatim>\<open>yaml_categories\<close> are there:
  \<^item> \<open>Written\<close>: the schema was generated and dumped to the output file (exit status 0);
  \<^item> \<open>WriteError\<close>: the schema was generated, writing raised \<^verbatim>\<open>IOError\<close>
    (line 173, \<^verbatim>\<open>sys.exit(1)\<close>);
  \<^item> \<open>Mismatch\<close>: the two sorted difference lists were reported (line 186,
    \<^verbatim>\<open>sys.exit(1)\<close>);
  \<^item> \<open>Traceback\<close>: an exception left \<^verbatim>\<open>generate_schema_yaml\<close> and nothing
    catches it, so the interpreter prints the traceback and exits with status 1.
\<close>

datatype 'f outcome =
    Written "warning list" "'f schema"
  | WriteError "warning list" "'f schema"
  | Mismatch "string list" "string list"
  | Traceback "warning list" exn

fun exit_status :: "'f outcome \<Rightarrow> nat" where
  "exit_status (Written ws doc) = 0"
| "exit_status (WriteError ws doc) = 1"
| "exit_status (Mismatch ys ds) = 1"
| "exit_status (Traceback ws e) = 1"

fun output_file :: "'f outcome \<Rightarrow> 'f schema option" where
  "output_file (Written ws doc) = Some doc"
| "output_file (WriteError ws doc) = None"
| "output_file (Mismatch ys ds) = None"
| "output_file (Traceback ws e) = None"

fun schema_produced :: "'f outcome \<Rightarrow> 'f schema option" where
  "schema_produced (Written ws doc) = Some doc"
| "schema_produced (WriteError ws doc) = Some doc"
| "schema_produced (Mismatch ys ds) = None"
| "schema_produced (Traceback ws e) = None"

fun generation_invoked :: "'f outcome \<Rightarrow> bool" where
  "generation_invoked (Written ws doc) = True"
| "generation_invoked (WriteError ws doc) = True"
| "generation_invoked (Mismatch ys ds) = False"
| "generation_invoked (Traceback ws e) = True"

text \<open>
  \<open>writable\<close> says whether opening and dumping to the output file succeeds. The set
  comprehension of line 153 is the set of the concatenated name lists.
\<close>

definition main_body ::
  "(string \<Rightarrow> int option) \<Rightarrow> (string \<Rightarrow> 'f option) \<Rightarrow> (string, setting) dict
     \<Rightarrow> (string, string list) dict \<Rightarrow> bool \<Rightarrow> 'f outcome" where
  "main_body pint pfloat db_settings_data yaml_categories writable =
     (let db_settings = set (map fst db_settings_data);
          yaml_settings = set (concat (map snd yaml_categories));
          in_yaml_not_in_db = sorted_list_of_set (yaml_settings - db_settings);
          in_db_not_in_yaml = sorted_list_of_set (db_settings - yaml_settings)
      in if in_yaml_not_in_db = [] \<and> in_db_not_in_yaml = [] then
           (case generate_schema_yaml pint pfloat db_settings_data yaml_categories of
              (ws, Inl e) \<Rightarrow> Traceback ws e
            | (ws, Inr schema_content) \<Rightarrow>
                if writable then Written ws schema_content else WriteError ws schema_content)
         else Mismatch in_yaml_not_in_db in_db_not_in_yaml)"

section \<open>\<^verbatim>\<open>get_yaml_categories\<close> (lines 23 to 38)\<close>

text \<open>
  What \<^verbatim>\<open>yaml.safe_load\<close> returns: null (also for an empty document), booleans,
  integers, strings, sequences and mappings. Floats and timestamps are left out; the
  operator \<^verbatim>\<open>in\<close> treats them as it treats integers.
\<close>

datatype yaml =
    YNull
  | YBool bool
  | YInt int
  | YStr string
  | YSeq "yaml list"
  | YMap "(yaml \<times> yaml) list"

text \<open>Opening and parsing the file: the two exceptions the function catches, or the data.\<close>

datatype file_content = FileNotFound | Malformed | Parsed yaml

text \<open>The three messages of lines 31, 34 and 37, each with the path it names.\<close>

datatype diagnostic =
    CategoriesKeyError string
  | YamlFileNotFound string
  | YamlParseError

text \<open>
  How the call ends: it returns, it prints a diagnostic and calls \<^verbatim>\<open>sys.exit\<close> with a
  status, or an exception it does not catch leaves it.
\<close>

datatype 'a ending = Returned 'a | SysExit nat diagnostic | Raised exn

text \<open>
  \<^verbatim>\<open>'categories' in data\<close>: key membership on a dict, element membership on a list,
  substring on a string, \<^verbatim>\<open>TypeError\<close> on a value that is not iterable.
\<close>

fun contains_categories :: "yaml \<Rightarrow> exn + bool" where
  "contains_categories (YMap m) = Inr (YStr ''categories'' \<in> fst ` set m)"
| "contains_categories (YSeq xs) = Inr (YStr ''categories'' \<in> set xs)"
| "contains_categories (YStr s) = Inr (sublist ''categories'' s)"
| "contains_categories YNull = Inl TypeError"
| "contains_categories (YBool b) = Inl TypeError"
| "contains_categories (YInt i) = Inl TypeError"

text \<open>\<^verbatim>\<open>data['categories']\<close>: lists and strings take integer indices only.\<close>

fun subscript_categories :: "yaml \<Rightarrow> exn + yaml" where
  "subscript_categories (YMap m) =
     (case map_of m (YStr ''categories'') of Some v \<Rightarrow> Inr v | None \<Rightarrow> Inl KeyError)"
| "subscript_categories (YSeq xs) = Inl TypeError"
| "subscript_categories (YStr s) = Inl TypeError"
| "subscript_categories YNull = Inl TypeError"
| "subscript_categories (YBool b) = Inl TypeError"
| "subscript_categories (YInt i) = Inl TypeError"

definition get_yaml_categories :: "string \<Rightarrow> file_content \<Rightarrow> (yaml \<times> yaml) list ending" where
  "get_yaml_categories yaml_path file =
     (case file of
        FileNotFound \<Rightarrow> SysExit 1 (YamlFileNotFound yaml_path)
      | Malformed \<Rightarrow> SysExit 1 YamlParseError
      | Parsed data \<Rightarrow>
          (case contains_categories data of
             Inl e \<Rightarrow> Raised e
           | Inr False \<Rightarrow> SysExit 1 (CategoriesKeyError yaml_path)
           | Inr True \<Rightarrow>
               (case subscript_categories data of
                  Inl e \<Rightarrow> Raised e
                | Inr (YMap m) \<Rightarrow> Returned m
                | Inr v \<Rightarrow> SysExit 1 (CategoriesKeyError yaml_path))))"

section \<open>The builtin \<^verbatim>\<open>int\<close> on ASCII decimal literals\<close>

text \<open>
  An instance for \<open>pint\<close>, used to run the model on concrete rows. On an ASCII string
  the builtin drops surrounding whitespace (tab, line feed, vertical tab, form feed,
  carriage return, space), then reads an optional sign and decimal digits, where single
  underscores may stand between two digits; any other ASCII string raises
  \<^verbatim>\<open>ValueError\<close>. Digits and spaces outside ASCII, which the builtin accepts as
  well, and the interpreter's limit on the number of digits are outside this instance;
  no statement below runs it on such a literal.
\<close>

definition is_space :: "char \<Rightarrow> bool" where
  "is_space c = (c \<in> set [CHR 0x09, CHR 0x0A, CHR 0x0B, CHR 0x0C, CHR 0x0D, CHR 0x20])"

definition is_digit :: "char \<Rightarrow> bool" where
  "is_digit c = (CHR ''0'' \<le> c \<and> c \<le> CHR ''9'')"

definition digit_val :: "char \<Rightarrow> int" where
  "digit_val c = of_char c - of_char CHR ''0''"

fun digits_from :: "int \<Rightarrow> string \<Rightarrow> int option" where
  "digits_from acc [] = Some acc"
| "digits_from acc [c] = (if is_digit c then Some (10 * acc + digit_val c) else None)"
| "digits_from acc (c # d # cs) =
     (if is_digit c then digits_from (10 * acc + digit_val c) (d # cs)
      else if c = CHR ''_'' \<and> is_digit d then digits_from (10 * acc + digit_val d) cs
      else None)"

definition digit_part :: "string \<Rightarrow> int option" where
  "digit_part s =
     (case s of
        [] \<Rightarrow> None
      | c # cs \<Rightarrow> if is_digit c then digits_from (digit_val c) cs else None)"

definition strip :: "string \<Rightarrow> string" where
  "strip s = rev (dropWhile is_space (rev (dropWhile is_space s)))"

definition py_int :: "string \<Rightarrow> int option" where
  "py_int s =
     (case strip s of
        [] \<Rightarrow> None
      | c # cs \<Rightarrow>
          if c = CHR ''-'' then map_option uminus (digit_part cs)
          else if c = CHR ''+'' then digit_part cs
          else digit_part (c # cs))"

section \<open>Sample rows\<close>

text \<open>
  Rows in the shape \<^verbatim>\<open>pg_settings\<close> reports them, used to run the model. The last two
  carry a reset value, respectively a lower bound, that is not a decimal literal.
\<close>

definition shared_buffers :: setting where
  "shared_buffers =
     \<lparr>short_desc = ''Sets the number of shared memory buffers used by the server.'',
      vartype = ''integer'', unit = Some ''8kB'',
      min_val = Some ''16'', max_val = Some ''2147483647'',
      enumvals = None, reset_val = Some ''16384''\<rparr>"

definition log_min_messages :: setting where
  "log_min_messages =
     \<lparr>short_desc = ''Sets the message levels that are logged.'',
      vartype = ''enum'', unit = None,
      min_val = None, max_val = None,
      enumvals = Some [''debug5'', ''debug1'', ''info'', ''warning''],
      reset_val = Some ''warning''\<rparr>"

definition fsync :: setting where
  "fsync =
     \<lparr>short_desc = ''Forces synchronization of updates to disk.'',
      vartype = ''bool'', unit = None,
      min_val = None, max_val = None,
      enumvals = None, reset_val = Some ''on''\<rparr>"

definition jit :: setting where
  "jit =
     \<lparr>short_desc = ''Allow JIT compilation.'',
      vartype = ''bool'', unit = None,
      min_val = None, max_val = None,
      enumvals = None, reset_val = Some ''off''\<rparr>"

definition bad_reset :: setting where
  "bad_reset =
     \<lparr>short_desc = ''Sets the maximum memory to be used for query workspaces.'',
      vartype = ''integer'', unit = Some ''kB'',
      min_val = Some ''64'', max_val = Some ''2147483647'',
      enumvals = None, reset_val = Some ''abc''\<rparr>"

definition bad_bound :: setting where
  "bad_bound =
     \<lparr>short_desc = ''Sets the maximum memory to be used for query workspaces.'',
      vartype = ''integer'', unit = Some ''kB'',
      min_val = Some ''abc'', max_val = Some ''2147483647'',
      enumvals = None, reset_val = Some ''4096''\<rparr>"

definition sample_settings :: "(string, setting) dict" where
  "sample_settings =
     [(''shared_buffers'', shared_buffers),
      (''log_min_messages'', log_min_messages),
      (''jit'', jit),
      (''fsync'', fsync)]"

definition sample_categories :: "(string, string list) dict" where
  "sample_categories =
     [(''memory'', [''shared_buffers'']),
      (''logging'', [''log_min_messages'']),
      (''other'', [''jit'', ''fsync''])]"

section \<open>Properties of the loop body\<close>

lemma map_of_update: "map_of (AList.update k v al) k' = (if k' = k then Some v else map_of al k')"
  by (simp add: update_conv')

lemma set_parsed_Inr:
  "set_parsed key parse wrap s p = Inr q \<Longrightarrow> \<exists>n. parse s = Some n \<and> q = AList.update key (wrap n) p"
  by (auto simp: set_parsed_def split: option.splits)

lemma add_default_other:
  "k \<noteq> ''default'' \<Longrightarrow> map_of (snd (add_default pint pfloat n sd p)) k = map_of p k"
  by (auto simp: add_default_def map_of_update split: option.splits)

lemma add_default_default:
  "map_of p ''default'' = None \<Longrightarrow>
   map_of (snd (add_default pint pfloat n sd p)) ''default'' =
     (case reset_val sd of
        None \<Rightarrow> None
      | Some rv \<Rightarrow>
          if vartype sd = ''bool'' then Some (PBool (rv = ''on''))
          else if vartype sd = ''integer'' then map_option PInt (pint rv)
          else if vartype sd = ''real'' then map_option PFloat (pfloat rv)
          else Some (PStr rv))"
  by (auto simp: add_default_def map_of_update split: option.splits)

lemma add_bounds_other:
  "add_bounds pint pfloat sd p = Inr q \<Longrightarrow> k \<noteq> ''minimum'' \<Longrightarrow> k \<noteq> ''maximum'' \<Longrightarrow>
   map_of q k = map_of p k"
  by (auto simp: add_bounds_def and_then_def map_of_update split: if_splits sum.splits dest!: set_parsed_Inr)

lemma add_bounds_minimum:
  "add_bounds pint pfloat sd p = Inr q \<Longrightarrow> map_of p ''minimum'' = None \<Longrightarrow>
   map_of q ''minimum'' =
     (case min_val sd of
        None \<Rightarrow> None
      | Some s \<Rightarrow>
          if vartype sd = ''integer'' then map_option PInt (pint s)
          else if vartype sd = ''real'' then map_option PFloat (pfloat s)
          else None)"
  by (auto simp: add_bounds_def and_then_def map_of_update split: if_splits sum.splits option.splits dest!: set_parsed_Inr)

lemma add_bounds_maximum:
  "add_bounds pint pfloat sd p = Inr q \<Longrightarrow> map_of p ''maximum'' = None \<Longrightarrow>
   map_of q ''maximum'' =
     (case max_val sd of
        None \<Rightarrow> None
      | Some s \<Rightarrow>
          if vartype sd = ''integer'' then map_option PInt (pint s)
          else if vartype sd = ''real'' then map_option PFloat (pfloat s)
          else None)"
  by (auto simp: add_bounds_def and_then_def map_of_update split: if_splits sum.splits option.splits dest!: set_parsed_Inr)

lemma add_enum_other:
  "k \<noteq> ''enum'' \<Longrightarrow> map_of (add_enum sd p) k = map_of p k"
  by (simp add: add_enum_def map_of_update)

lemma add_enum_enum:
  "map_of p ''enum'' = None \<Longrightarrow>
   map_of (add_enum sd p) ''enum'' =
     (if vartype sd = ''enum'' \<and> truthy (enumvals sd) then Some (PList (the (enumvals sd))) else None)"
  by (simp add: add_enum_def map_of_update)

lemma make_prop_Inr:
  "make_prop pint pfloat n sd = (ws, Inr p) \<Longrightarrow>
   \<exists>q. add_bounds pint pfloat sd
          (snd (add_default pint pfloat n sd
             [(''type'', PStr (case map_of type_mapping (vartype sd) of Some t \<Rightarrow> t | None \<Rightarrow> ''string'')),
              (''description'', PStr (if truthy (unit sd) then short_desc sd @ '' (Unit: '' @ the (unit sd) @ '')'' else short_desc sd))])) = Inr q
       \<and> p = add_enum sd q"
  by (auto simp: make_prop_def Let_def and_then_def split: prod.splits sum.splits)

lemma update_set: "(a, b) \<in> set (AList.update k v al) \<Longrightarrow> (a, b) = (k, v) \<or> (a, b) \<in> set al"
  by (induction al) (auto split: if_splits)

lemma update_fresh: "k \<notin> fst ` set al \<Longrightarrow> AList.update k v al = al @ [(k, v)]"
  by (induction al) auto

lemma settings_loop_entries:
  "settings_loop pint pfloat db ns props = (ws, Inr r) \<Longrightarrow> (n, p) \<in> set r \<Longrightarrow>
   (n, p) \<in> set props \<or>
   (n \<in> set ns \<and> (\<exists>sd ws'. map_of db n = Some sd \<and> make_prop pint pfloat n sd = (ws', Inr p)))"
proof (induction ns arbitrary: props ws)
  case Nil
  then show ?case by simp
next
  case (Cons m ns)
  show ?case
  proof (cases "map_of db m")
    case None
    with Cons.prems obtain ws1 where "settings_loop pint pfloat db ns props = (ws1, Inr r)"
      by (auto split: prod.splits)
    from Cons.IH[OF this Cons.prems(2)] show ?thesis by auto
  next
    case (Some sd)
    with Cons.prems obtain w1 q ws1 where
      mk: "make_prop pint pfloat m sd = (w1, Inr q)" and
      rest: "settings_loop pint pfloat db ns (AList.update m q props) = (ws1, Inr r)"
      by (auto split: prod.splits sum.splits)
    from Cons.IH[OF rest Cons.prems(2)] show ?thesis
    proof
      assume "(n, p) \<in> set (AList.update m q props)"
      then have "(n, p) = (m, q) \<or> (n, p) \<in> set props" by (rule update_set)
      with Some mk show ?thesis by auto
    next
      assume "n \<in> set ns \<and> (\<exists>sd ws'. map_of db n = Some sd \<and> make_prop pint pfloat n sd = (ws', Inr p))"
      then show ?thesis by auto
    qed
  qed
qed

lemma categories_loop_entries:
  "categories_loop pint pfloat db cats props = (ws, Inr r) \<Longrightarrow> (c, cs) \<in> set r \<Longrightarrow>
   (c, cs) \<in> set props \<or>
   (\<exists>names ws'. (c, names) \<in> set cats \<and>
      settings_loop pint pfloat db (sort names) [] = (ws', Inr (cs_properties cs)))"
proof (induction cats arbitrary: props ws)
  case Nil
  then show ?case by simp
next
  case (Cons a cats)
  obtain d names where a: "a = (d, names)" by (cases a)
  with Cons.prems obtain w1 cp ws1 where
    inner: "settings_loop pint pfloat db (sort names) [] = (w1, Inr cp)" and
    rest: "categories_loop pint pfloat db cats
             (AList.update d \<lparr>cs_type = ''object'',
                cs_description = ''Settings for the '' @ d @ '' category.'',
                cs_properties = cp\<rparr> props) = (ws1, Inr r)"
    by (auto split: prod.splits sum.splits)
  from Cons.IH[OF rest Cons.prems(2)] show ?case
  proof
    assume "(c, cs) \<in> set (AList.update d \<lparr>cs_type = ''object'',
                cs_description = ''Settings for the '' @ d @ '' category.'',
                cs_properties = cp\<rparr> props)"
    then have "(c, cs) = (d, \<lparr>cs_type = ''object'',
                cs_description = ''Settings for the '' @ d @ '' category.'',
                cs_properties = cp\<rparr>) \<or> (c, cs) \<in> set props" by (rule update_set)
    with inner a show ?thesis by auto
  next
    assume "\<exists>names ws'. (c, names) \<in> set cats \<and>
      settings_loop pint pfloat db (sort names) [] = (ws', Inr (cs_properties cs))"
    with a show ?thesis by auto
  qed
qed

lemma generated_property:
  assumes "generate_schema_yaml pint pfloat db cats = (ws, Inr doc)"
    and "(c, cs) \<in> set (s_properties doc)"
    and "(n, p) \<in> set (cs_properties cs)"
  shows "\<exists>names sd ws'. (c, names) \<in> set cats \<and> n \<in> set names \<and> map_of db n = Some sd \<and>
           make_prop pint pfloat n sd = (ws', Inr p)"
proof -
  from assms(1) obtain props where
    loop: "categories_loop pint pfloat db cats [] = (ws, Inr props)" and doc: "s_properties doc = props"
    by (auto simp: generate_schema_yaml_def split: prod.splits sum.splits)
  from assms(2) doc have "(c, cs) \<in> set props" by simp
  from categories_loop_entries[OF loop this] obtain names w1 where
    names: "(c, names) \<in> set cats" and
    inner: "settings_loop pint pfloat db (sort names) [] = (w1, Inr (cs_properties cs))"
    by auto
  from settings_loop_entries[OF inner assms(3)] names show ?thesis by auto
qed


lemma make_prop_type:
  assumes "make_prop pint pfloat n sd = (ws, Inr p)"
  shows "map_of p ''type'' =
           Some (PStr (case map_of type_mapping (vartype sd) of Some t \<Rightarrow> t | None \<Rightarrow> ''string''))"
proof -
  from make_prop_Inr[OF assms] obtain q where
    q: "add_bounds pint pfloat sd
          (snd (add_default pint pfloat n sd
             [(''type'', PStr (case map_of type_mapping (vartype sd) of Some t \<Rightarrow> t | None \<Rightarrow> ''string'')),
              (''description'', PStr (if truthy (unit sd) then short_desc sd @ '' (Unit: '' @ the (unit sd) @ '')'' else short_desc sd))])) = Inr q"
    and p: "p = add_enum sd q" by blast
  have "map_of p ''type'' = map_of q ''type''"
    by (simp add: p add_enum_other)
  also have "\<dots> = map_of (snd (add_default pint pfloat n sd
             [(''type'', PStr (case map_of type_mapping (vartype sd) of Some t \<Rightarrow> t | None \<Rightarrow> ''string'')),
              (''description'', PStr (if truthy (unit sd) then short_desc sd @ '' (Unit: '' @ the (unit sd) @ '')'' else short_desc sd))])) ''type''"
    by (rule add_bounds_other[OF q]) simp_all
  also have "\<dots> = Some (PStr (case map_of type_mapping (vartype sd) of Some t \<Rightarrow> t | None \<Rightarrow> ''string''))"
    by (simp add: add_default_other)
  finally show ?thesis .
qed

lemma make_prop_description:
  assumes "make_prop pint pfloat n sd = (ws, Inr p)"
  shows "map_of p ''description'' =
           Some (PStr (if truthy (unit sd) then short_desc sd @ '' (Unit: '' @ the (unit sd) @ '')''
                       else short_desc sd))"
proof -
  from make_prop_Inr[OF assms] obtain q where
    q: "add_bounds pint pfloat sd
          (snd (add_default pint pfloat n sd
             [(''type'', PStr (case map_of type_mapping (vartype sd) of Some t \<Rightarrow> t | None \<Rightarrow> ''string'')),
              (''description'', PStr (if truthy (unit sd) then short_desc sd @ '' (Unit: '' @ the (unit sd) @ '')'' else short_desc sd))])) = Inr q"
    and p: "p = add_enum sd q" by blast
  have "map_of p ''description'' = map_of q ''description''"
    by (simp add: p add_enum_other)
  also have "\<dots> = map_of (snd (add_default pint pfloat n sd
             [(''type'', PStr (case map_of type_mapping (vartype sd) of Some t \<Rightarrow> t | None \<Rightarrow> ''string'')),
              (''description'', PStr (if truthy (unit sd) then short_desc sd @ '' (Unit: '' @ the (unit sd) @ '')'' else short_desc sd))])) ''description''"
    by (rule add_bounds_other[OF q]) simp_all
  also have "\<dots> = Some (PStr (if truthy (unit sd) then short_desc sd @ '' (Unit: '' @ the (unit sd) @ '')''
                       else short_desc sd))"
    by (simp add: add_default_other)
  finally show ?thesis .
qed

lemma make_prop_default:
  assumes "make_prop pint pfloat n sd = (ws, Inr p)"
  shows "map_of p ''default'' =
     (case reset_val sd of
        None \<Rightarrow> None
      | Some rv \<Rightarrow>
          if vartype sd = ''bool'' then Some (PBool (rv = ''on''))
          else if vartype sd = ''integer'' then map_option PInt (pint rv)
          else if vartype sd = ''real'' then map_option PFloat (pfloat rv)
          else Some (PStr rv))"
proof -
  from make_prop_Inr[OF assms] obtain q where
    q: "add_bounds pint pfloat sd
          (snd (add_default pint pfloat n sd
             [(''type'', PStr (case map_of type_mapping (vartype sd) of Some t \<Rightarrow> t | None \<Rightarrow> ''string'')),
              (''description'', PStr (if truthy (unit sd) then short_desc sd @ '' (Unit: '' @ the (unit sd) @ '')'' else short_desc sd))])) = Inr q"
    and p: "p = add_enum sd q" by blast
  have "map_of p ''default'' = map_of q ''default''"
    by (simp add: p add_enum_other)
  also have "\<dots> = map_of (snd (add_default pint pfloat n sd
             [(''type'', PStr (case map_of type_mapping (vartype sd) of Some t \<Rightarrow> t | None \<Rightarrow> ''string'')),
              (''description'', PStr (if truthy (unit sd) then short_desc sd @ '' (Unit: '' @ the (unit sd) @ '')'' else short_desc sd))])) ''default''"
    by (rule add_bounds_other[OF q]) simp_all
  finally show ?thesis
    by (simp add: add_default_default)
qed

lemma make_prop_minimum:
  assumes "make_prop pint pfloat n sd = (ws, Inr p)"
  shows "map_of p ''minimum'' =
     (case min_val sd of
        None \<Rightarrow> None
      | Some s \<Rightarrow>
          if vartype sd = ''integer'' then map_option PInt (pint s)
          else if vartype sd = ''real'' then map_option PFloat (pfloat s)
          else None)"
proof -
  from make_prop_Inr[OF assms] obtain q where
    q: "add_bounds pint pfloat sd
          (snd (add_default pint pfloat n sd
             [(''type'', PStr (case map_of type_mapping (vartype sd) of Some t \<Rightarrow> t | None \<Rightarrow> ''string'')),
              (''description'', PStr (if truthy (unit sd) then short_desc sd @ '' (Unit: '' @ the (unit sd) @ '')'' else short_desc sd))])) = Inr q"
    and p: "p = add_enum sd q" by blast
  have "map_of p ''minimum'' = map_of q ''minimum''"
    by (simp add: p add_enum_other)
  also have "\<dots> = (case min_val sd of
        None \<Rightarrow> None
      | Some s \<Rightarrow>
          if vartype sd = ''integer'' then map_option PInt (pint s)
          else if vartype sd = ''real'' then map_option PFloat (pfloat s)
          else None)"
    by (rule add_bounds_minimum[OF q]) (simp add: add_default_other)
  finally show ?thesis .
qed

lemma make_prop_maximum:
  assumes "make_prop pint pfloat n sd = (ws, Inr p)"
  shows "map_of p ''maximum'' =
     (case max_val sd of
        None \<Rightarrow> None
      | Some s \<Rightarrow>
          if vartype sd = ''integer'' then map_option PInt (pint s)
          else if vartype sd = ''real'' then map_option PFloat (pfloat s)
          else None)"
proof -
  from make_prop_Inr[OF assms] obtain q where
    q: "add_bounds pint pfloat sd
          (snd (add_default pint pfloat n sd
             [(''type'', PStr (case map_of type_mapping (vartype sd) of Some t \<Rightarrow> t | None \<Rightarrow> ''string'')),
              (''description'', PStr (if truthy (unit sd) then short_desc sd @ '' (Unit: '' @ the (unit sd) @ '')'' else short_desc sd))])) = Inr q"
    and p: "p = add_enum sd q" by blast
  have "map_of p ''maximum'' = map_of q ''maximum''"
    by (simp add: p add_enum_other)
  also have "\<dots> = (case max_val sd of
        None \<Rightarrow> None
      | Some s \<Rightarrow>
          if vartype sd = ''integer'' then map_option PInt (pint s)
          else if vartype sd = ''real'' then map_option PFloat (pfloat s)
          else None)"
    by (rule add_bounds_maximum[OF q]) (simp add: add_default_other)
  finally show ?thesis .
qed

lemma make_prop_enum:
  assumes "make_prop pint pfloat n sd = (ws, Inr p)"
  shows "map_of p ''enum'' =
     (if vartype sd = ''enum'' \<and> truthy (enumvals sd) then Some (PList (the (enumvals sd))) else None)"
proof -
  from make_prop_Inr[OF assms] obtain q where
    q: "add_bounds pint pfloat sd
          (snd (add_default pint pfloat n sd
             [(''type'', PStr (case map_of type_mapping (vartype sd) of Some t \<Rightarrow> t | None \<Rightarrow> ''string'')),
              (''description'', PStr (if truthy (unit sd) then short_desc sd @ '' (Unit: '' @ the (unit sd) @ '')'' else short_desc sd))])) = Inr q"
    and p: "p = add_enum sd q" by blast
  have "map_of q ''enum'' = map_of (snd (add_default pint pfloat n sd
             [(''type'', PStr (case map_of type_mapping (vartype sd) of Some t \<Rightarrow> t | None \<Rightarrow> ''string'')),
              (''description'', PStr (if truthy (unit sd) then short_desc sd @ '' (Unit: '' @ the (unit sd) @ '')'' else short_desc sd))])) ''enum''"
    by (rule add_bounds_other[OF q]) simp_all
  then have "map_of q ''enum'' = None"
    by (simp add: add_default_other)
  then show ?thesis
    unfolding p by (rule add_enum_enum)
qed

lemma add_bounds_parsed:
  "add_bounds pint pfloat sd p = Inr q \<Longrightarrow>
   (vartype sd = ''integer'' \<longrightarrow>
      (\<forall>s. min_val sd = Some s \<or> max_val sd = Some s \<longrightarrow> pint s \<noteq> None)) \<and>
   (vartype sd = ''real'' \<longrightarrow>
      (\<forall>s. min_val sd = Some s \<or> max_val sd = Some s \<longrightarrow> pfloat s \<noteq> None))"
  by (auto simp: add_bounds_def and_then_def set_parsed_def split: if_splits sum.splits option.splits)

lemma make_prop_parsed:
  assumes "make_prop pint pfloat n sd = (ws, Inr p)"
  shows "(vartype sd = ''integer'' \<longrightarrow>
            (\<forall>s. min_val sd = Some s \<or> max_val sd = Some s \<longrightarrow> pint s \<noteq> None)) \<and>
         (vartype sd = ''real'' \<longrightarrow>
            (\<forall>s. min_val sd = Some s \<or> max_val sd = Some s \<longrightarrow> pfloat s \<noteq> None))"
proof -
  from make_prop_Inr[OF assms] obtain q d where "add_bounds pint pfloat sd d = Inr q"
    by blast
  then show ?thesis by (rule add_bounds_parsed)
qed

section \<open>The sample run\<close>

lemma sample_run:
  "generate_schema_yaml py_int (pfloat :: string \<Rightarrow> real option) sample_settings sample_categories =
     ([],
      Inr \<lparr>s_type = ''object'',
           s_description =
             ''Schema for PostgreSQL configuration settings (postgresql.conf), grouped by category.'',
           s_properties =
             [(''memory'',
               \<lparr>cs_type = ''object'',
                cs_description = ''Settings for the memory category.'',
                cs_properties =
                  [(''shared_buffers'',
                    [(''type'', PStr ''integer''),
                     (''description'',
                      PStr ''Sets the number of shared memory buffers used by the server. (Unit: 8kB)''),
                     (''default'', PInt 16384),
                     (''minimum'', PInt 16),
                     (''maximum'', PInt 2147483647)])]\<rparr>),
              (''logging'',
               \<lparr>cs_type = ''object'',
                cs_description = ''Settings for the logging category.'',
                cs_properties =
                  [(''log_min_messages'',
                    [(''type'', PStr ''string''),
                     (''description'', PStr ''Sets the message levels that are logged.''),
                     (''default'', PStr ''warning''),
                     (''enum'', PList [''debug5'', ''debug1'', ''info'', ''warning''])])]\<rparr>),
              (''other'',
               \<lparr>cs_type = ''object'',
                cs_description = ''Settings for the other category.'',
                cs_properties =
                  [(''fsync'',
                    [(''type'', PStr ''boolean''),
                     (''description'', PStr ''Forces synchronization of updates to disk.''),
                     (''default'', PBool True)]),
                   (''jit'',
                    [(''type'', PStr ''boolean''),
                     (''description'', PStr ''Allow JIT compilation.''),
                     (''default'', PBool False)])]\<rparr>)]\<rparr>)"
  by code_simp

section \<open>Claims about one property descriptor\<close>

text \<open>
  C6. A setting of type \<open>bool\<close> with a reset value gets the default \<open>True\<close> exactly
  when the reset value is the literal \<open>on\<close>, and \<open>False\<close> for every other literal.
\<close>

theorem bool_default_on:
  assumes "generate_schema_yaml pint pfloat db cats = (ws, Inr doc)"
    and "(c, cs) \<in> set (s_properties doc)"
    and "(n, p) \<in> set (cs_properties cs)"
    and "map_of db n = Some sd"
    and "vartype sd = ''bool''"
    and "reset_val sd = Some rv"
  shows "map_of p ''default'' = Some (PBool (rv = ''on''))"
proof -
  from generated_property[OF assms(1-3)] assms(4)
  obtain ws' where "make_prop pint pfloat n sd = (ws', Inr p)" by auto
  from make_prop_default[OF this] assms(5,6) show ?thesis by simp
qed

theorem bool_default_on_witness:
  "\<forall>pfloat :: string \<Rightarrow> real option.
     \<exists>ws doc cs p q.
       generate_schema_yaml py_int pfloat sample_settings sample_categories = (ws, Inr doc) \<and>
       (''other'', cs) \<in> set (s_properties doc) \<and>
       (''fsync'', p) \<in> set (cs_properties cs) \<and>
       (''jit'', q) \<in> set (cs_properties cs) \<and>
       map_of sample_settings ''fsync'' = Some fsync \<and>
       map_of sample_settings ''jit'' = Some jit \<and>
       vartype fsync = ''bool'' \<and> reset_val fsync = Some ''on'' \<and>
       vartype jit = ''bool'' \<and> reset_val jit = Some ''off'' \<and>
       map_of p ''default'' = Some (PBool True) \<and>
       map_of q ''default'' = Some (PBool False)"
proof
  fix pfloat :: "string \<Rightarrow> real option"
  let ?p = "[(''type'', PStr ''boolean''),
             (''description'', PStr ''Forces synchronization of updates to disk.''),
             (''default'', PBool True)] :: real property"
  let ?q = "[(''type'', PStr ''boolean''),
             (''description'', PStr ''Allow JIT compilation.''),
             (''default'', PBool False)] :: real property"
  let ?cs = "\<lparr>cs_type = ''object'',
              cs_description = ''Settings for the other category.'',
              cs_properties = [(''fsync'', ?p), (''jit'', ?q)]\<rparr>"
  note run = sample_run[of pfloat]
  have c: "(''other'', ?cs) \<in> set (s_properties (projr (snd (generate_schema_yaml py_int pfloat sample_settings sample_categories))))"
    by (simp add: run)
  have p: "(''fsync'', ?p) \<in> set (cs_properties ?cs)" and q: "(''jit'', ?q) \<in> set (cs_properties ?cs)"
    by simp_all
  have rows: "map_of sample_settings ''fsync'' = Some fsync" "map_of sample_settings ''jit'' = Some jit"
    by (simp_all add: sample_settings_def)
  have f: "vartype fsync = ''bool''" "reset_val fsync = Some ''on''"
    by (simp_all add: fsync_def)
  have j: "vartype jit = ''bool''" "reset_val jit = Some ''off''"
    by (simp_all add: jit_def)
  have g: "generate_schema_yaml py_int pfloat sample_settings sample_categories =
             ([], Inr (projr (snd (generate_schema_yaml py_int pfloat sample_settings sample_categories))))"
    by (simp add: run)
  from bool_default_on[OF g c p rows(1) f] have dp: "map_of ?p ''default'' = Some (PBool True)"
    by simp
  from bool_default_on[OF g c q rows(2) j] have dq: "map_of ?q ''default'' = Some (PBool False)"
    by simp
  from g c p q rows f j dp dq
  show "\<exists>ws doc cs p q.
       generate_schema_yaml py_int pfloat sample_settings sample_categories = (ws, Inr doc) \<and>
       (''other'', cs) \<in> set (s_properties doc) \<and>
       (''fsync'', p) \<in> set (cs_properties cs) \<and>
       (''jit'', q) \<in> set (cs_properties cs) \<and>
       map_of sample_settings ''fsync'' = Some fsync \<and>
       map_of sample_settings ''jit'' = Some jit \<and>
       vartype fsync = ''bool'' \<and> reset_val fsync = Some ''on'' \<and>
       vartype jit = ''bool'' \<and> reset_val jit = Some ''off'' \<and>
       map_of p ''default'' = Some (PBool True) \<and>
       map_of q ''default'' = Some (PBool False)"
    by blast
qed

text \<open>
  C7. A descriptor carries \<open>minimum\<close> (\<open>maximum\<close>) exactly when the setting is of type
  \<open>integer\<close> or \<open>real\<close> and has a lower (upper) bound; the value is the bound parsed by
  \<^verbatim>\<open>int\<close> for \<open>integer\<close> and by \<^verbatim>\<open>float\<close> for \<open>real\<close>. The two bounds do not depend
  on each other, and a setting of any other type carries neither.
\<close>

theorem bounds_only_numeric:
  assumes "generate_schema_yaml pint pfloat db cats = (ws, Inr doc)"
    and "(c, cs) \<in> set (s_properties doc)"
    and "(n, p) \<in> set (cs_properties cs)"
    and "map_of db n = Some sd"
  shows "map_of p ''minimum'' =
           (if vartype sd = ''integer'' then map_option PInt (Option.bind (min_val sd) pint)
            else if vartype sd = ''real'' then map_option PFloat (Option.bind (min_val sd) pfloat)
            else None) \<and>
         map_of p ''maximum'' =
           (if vartype sd = ''integer'' then map_option PInt (Option.bind (max_val sd) pint)
            else if vartype sd = ''real'' then map_option PFloat (Option.bind (max_val sd) pfloat)
            else None) \<and>
         ((map_of p ''minimum'' \<noteq> None) =
            (min_val sd \<noteq> None \<and> (vartype sd = ''integer'' \<or> vartype sd = ''real''))) \<and>
         ((map_of p ''maximum'' \<noteq> None) =
            (max_val sd \<noteq> None \<and> (vartype sd = ''integer'' \<or> vartype sd = ''real'')))"
proof -
  from generated_property[OF assms(1-3)] assms(4)
  obtain ws' where mk: "make_prop pint pfloat n sd = (ws', Inr p)" by auto
  note lo = make_prop_minimum[OF mk] and hi = make_prop_maximum[OF mk]
    and ok = make_prop_parsed[OF mk]
  have 1: "map_of p ''minimum'' =
           (if vartype sd = ''integer'' then map_option PInt (Option.bind (min_val sd) pint)
            else if vartype sd = ''real'' then map_option PFloat (Option.bind (min_val sd) pfloat)
            else None)"
    using lo by (cases "min_val sd") simp_all
  have 2: "map_of p ''maximum'' =
           (if vartype sd = ''integer'' then map_option PInt (Option.bind (max_val sd) pint)
            else if vartype sd = ''real'' then map_option PFloat (Option.bind (max_val sd) pfloat)
            else None)"
    using hi by (cases "max_val sd") simp_all
  have 3: "(map_of p ''minimum'' \<noteq> None) =
            (min_val sd \<noteq> None \<and> (vartype sd = ''integer'' \<or> vartype sd = ''real''))"
    using lo ok by (cases "min_val sd") auto
  have 4: "(map_of p ''maximum'' \<noteq> None) =
            (max_val sd \<noteq> None \<and> (vartype sd = ''integer'' \<or> vartype sd = ''real''))"
    using hi ok by (cases "max_val sd") auto
  from 1 2 3 4 show ?thesis by blast
qed

theorem bounds_only_numeric_witness:
  "\<forall>pfloat :: string \<Rightarrow> real option.
     \<exists>ws doc cs cs' p q.
       generate_schema_yaml py_int pfloat sample_settings sample_categories = (ws, Inr doc) \<and>
       (''memory'', cs) \<in> set (s_properties doc) \<and>
       (''shared_buffers'', p) \<in> set (cs_properties cs) \<and>
       map_of sample_settings ''shared_buffers'' = Some shared_buffers \<and>
       map_of p ''minimum'' = Some (PInt 16) \<and>
       map_of p ''maximum'' = Some (PInt 2147483647) \<and>
       (''logging'', cs') \<in> set (s_properties doc) \<and>
       (''log_min_messages'', q) \<in> set (cs_properties cs') \<and>
       map_of sample_settings ''log_min_messages'' = Some log_min_messages \<and>
       map_of q ''minimum'' = None \<and>
       map_of q ''maximum'' = None"
proof
  fix pfloat :: "string \<Rightarrow> real option"
  let ?doc = "projr (snd (generate_schema_yaml py_int pfloat sample_settings sample_categories))"
  let ?p = "[(''type'', PStr ''integer''),
             (''description'',
              PStr ''Sets the number of shared memory buffers used by the server. (Unit: 8kB)''),
             (''default'', PInt 16384),
             (''minimum'', PInt 16),
             (''maximum'', PInt 2147483647)] :: real property"
  let ?q = "[(''type'', PStr ''string''),
             (''description'', PStr ''Sets the message levels that are logged.''),
             (''default'', PStr ''warning''),
             (''enum'', PList [''debug5'', ''debug1'', ''info'', ''warning''])] :: real property"
  let ?cs = "\<lparr>cs_type = ''object'',
              cs_description = ''Settings for the memory category.'',
              cs_properties = [(''shared_buffers'', ?p)]\<rparr>"
  let ?cs' = "\<lparr>cs_type = ''object'',
              cs_description = ''Settings for the logging category.'',
              cs_properties = [(''log_min_messages'', ?q)]\<rparr>"
  note run = sample_run[of pfloat]
  have g: "generate_schema_yaml py_int pfloat sample_settings sample_categories = ([], Inr ?doc)"
    by (simp add: run)
  have c: "(''memory'', ?cs) \<in> set (s_properties ?doc)"
    and c': "(''logging'', ?cs') \<in> set (s_properties ?doc)"
    by (simp_all add: run)
  have p: "(''shared_buffers'', ?p) \<in> set (cs_properties ?cs)"
    and q: "(''log_min_messages'', ?q) \<in> set (cs_properties ?cs')"
    by simp_all
  have rows: "map_of sample_settings ''shared_buffers'' = Some shared_buffers"
    "map_of sample_settings ''log_min_messages'' = Some log_min_messages"
    by (simp_all add: sample_settings_def)
  have i16: "py_int ''16'' = Some 16" and imax: "py_int ''2147483647'' = Some 2147483647"
    by code_simp+
  from bounds_only_numeric[OF g c p rows(1)] i16 imax
  have bp: "map_of ?p ''minimum'' = Some (PInt 16) \<and> map_of ?p ''maximum'' = Some (PInt 2147483647)"
    by (simp add: shared_buffers_def)
  from bounds_only_numeric[OF g c' q rows(2)]
  have bq: "map_of ?q ''minimum'' = None \<and> map_of ?q ''maximum'' = None"
    by (simp add: log_min_messages_def)
  from g c p rows bp c' q bq
  show "\<exists>ws doc cs cs' p q.
       generate_schema_yaml py_int pfloat sample_settings sample_categories = (ws, Inr doc) \<and>
       (''memory'', cs) \<in> set (s_properties doc) \<and>
       (''shared_buffers'', p) \<in> set (cs_properties cs) \<and>
       map_of sample_settings ''shared_buffers'' = Some shared_buffers \<and>
       map_of p ''minimum'' = Some (PInt 16) \<and>
       map_of p ''maximum'' = Some (PInt 2147483647) \<and>
       (''logging'', cs') \<in> set (s_properties doc) \<and>
       (''log_min_messages'', q) \<in> set (cs_properties cs') \<and>
       map_of sample_settings ''log_min_messages'' = Some log_min_messages \<and>
       map_of q ''minimum'' = None \<and>
       map_of q ''maximum'' = None"
    by blast
qed

text \<open>
  C8. A descriptor carries \<open>enum\<close> exactly when the setting is of type \<open>enum\<close> and its
  \<open>enumvals\<close> is a non-empty list; the value is that list itself, in its own order.
\<close>

theorem enum_verbatim:
  assumes "generate_schema_yaml pint pfloat db cats = (ws, Inr doc)"
    and "(c, cs) \<in> set (s_properties doc)"
    and "(n, p) \<in> set (cs_properties cs)"
    and "map_of db n = Some sd"
  shows "map_of p ''enum'' =
           (case enumvals sd of
              None \<Rightarrow> None
            | Some vs \<Rightarrow> if vartype sd = ''enum'' \<and> vs \<noteq> [] then Some (PList vs) else None)"
proof -
  from generated_property[OF assms(1-3)] assms(4)
  obtain ws' where mk: "make_prop pint pfloat n sd = (ws', Inr p)" by auto
  from make_prop_enum[OF mk] show ?thesis
    by (cases "enumvals sd") (simp_all add: truthy_def)
qed

theorem enum_verbatim_witness:
  "\<forall>pfloat :: string \<Rightarrow> real option.
     \<exists>ws doc cs cs' p q.
       generate_schema_yaml py_int pfloat sample_settings sample_categories = (ws, Inr doc) \<and>
       (''logging'', cs') \<in> set (s_properties doc) \<and>
       (''log_min_messages'', q) \<in> set (cs_properties cs') \<and>
       map_of sample_settings ''log_min_messages'' = Some log_min_messages \<and>
       map_of q ''enum'' = Some (PList [''debug5'', ''debug1'', ''info'', ''warning'']) \<and>
       (''memory'', cs) \<in> set (s_properties doc) \<and>
       (''shared_buffers'', p) \<in> set (cs_properties cs) \<and>
       map_of sample_settings ''shared_buffers'' = Some shared_buffers \<and>
       map_of p ''enum'' = None"
proof
  fix pfloat :: "string \<Rightarrow> real option"
  let ?doc = "projr (snd (generate_schema_yaml py_int pfloat sample_settings sample_categories))"
  let ?p = "[(''type'', PStr ''integer''),
             (''description'',
              PStr ''Sets the number of shared memory buffers used by the server. (Unit: 8kB)''),
             (''default'', PInt 16384),
             (''minimum'', PInt 16),
             (''maximum'', PInt 2147483647)] :: real property"
  let ?q = "[(''type'', PStr ''string''),
             (''description'', PStr ''Sets the message levels that are logged.''),
             (''default'', PStr ''warning''),
             (''enum'', PList [''debug5'', ''debug1'', ''info'', ''warning''])] :: real property"
  let ?cs = "\<lparr>cs_type = ''object'',
              cs_description = ''Settings for the memory category.'',
              cs_properties = [(''shared_buffers'', ?p)]\<rparr>"
  let ?cs' = "\<lparr>cs_type = ''object'',
              cs_description = ''Settings for the logging category.'',
              cs_properties = [(''log_min_messages'', ?q)]\<rparr>"
  note run = sample_run[of pfloat]
  have g: "generate_schema_yaml py_int pfloat sample_settings sample_categories = ([], Inr ?doc)"
    by (simp add: run)
  have c: "(''memory'', ?cs) \<in> set (s_properties ?doc)"
    and c': "(''logging'', ?cs') \<in> set (s_properties ?doc)"
    by (simp_all add: run)
  have p: "(''shared_buffers'', ?p) \<in> set (cs_properties ?cs)"
    and q: "(''log_min_messages'', ?q) \<in> set (cs_properties ?cs')"
    by simp_all
  have rows: "map_of sample_settings ''shared_buffers'' = Some shared_buffers"
    "map_of sample_settings ''log_min_messages'' = Some log_min_messages"
    by (simp_all add: sample_settings_def)
  from enum_verbatim[OF g c' q rows(2)]
  have eq: "map_of ?q ''enum'' = Some (PList [''debug5'', ''debug1'', ''info'', ''warning''])"
    by (simp add: log_min_messages_def)
  from enum_verbatim[OF g c p rows(1)]
  have ep: "map_of ?p ''enum'' = None"
    by (simp add: shared_buffers_def)
  from g c' q rows eq c p ep
  show "\<exists>ws doc cs cs' p q.
       generate_schema_yaml py_int pfloat sample_settings sample_categories = (ws, Inr doc) \<and>
       (''logging'', cs') \<in> set (s_properties doc) \<and>
       (''log_min_messages'', q) \<in> set (cs_properties cs') \<and>
       map_of sample_settings ''log_min_messages'' = Some log_min_messages \<and>
       map_of q ''enum'' = Some (PList [''debug5'', ''debug1'', ''info'', ''warning'']) \<and>
       (''memory'', cs) \<in> set (s_properties doc) \<and>
       (''shared_buffers'', p) \<in> set (cs_properties cs) \<and>
       map_of sample_settings ''shared_buffers'' = Some shared_buffers \<and>
       map_of p ''enum'' = None"
    by blast
qed

text \<open>
  C10. Every descriptor of a generated document has the keys \<open>type\<close> and \<open>description\<close>,
  whatever optional keys it has: the setting it was made from is in the database data,
  \<open>type\<close> is the primitive the table gives for its \<open>vartype\<close> (\<open>string\<close> for a type
  outside the table) and \<open>description\<close> is its short description, with the unit
  appended when there is one.
\<close>

theorem type_and_description_present:
  assumes "generate_schema_yaml pint pfloat db cats = (ws, Inr doc)"
    and "(c, cs) \<in> set (s_properties doc)"
    and "(n, p) \<in> set (cs_properties cs)"
  shows "\<exists>sd. map_of db n = Some sd \<and>
           map_of p ''type'' =
             Some (PStr (case map_of type_mapping (vartype sd) of
                           Some t \<Rightarrow> t | None \<Rightarrow> ''string'')) \<and>
           map_of p ''description'' =
             Some (PStr (if truthy (unit sd)
                         then short_desc sd @ '' (Unit: '' @ the (unit sd) @ '')''
                         else short_desc sd))"
proof -
  from generated_property[OF assms]
  obtain sd ws' where sd: "map_of db n = Some sd"
    and mk: "make_prop pint pfloat n sd = (ws', Inr p)" by blast
  from sd make_prop_type[OF mk] make_prop_description[OF mk] show ?thesis by blast
qed

theorem type_and_description_present_witness:
  "\<forall>pfloat :: string \<Rightarrow> real option.
     \<exists>ws doc cs p.
       generate_schema_yaml py_int pfloat sample_settings sample_categories = (ws, Inr doc) \<and>
       (''memory'', cs) \<in> set (s_properties doc) \<and>
       (''shared_buffers'', p) \<in> set (cs_properties cs) \<and>
       map_of p ''type'' = Some (PStr ''integer'') \<and>
       map_of p ''description'' =
         Some (PStr ''Sets the number of shared memory buffers used by the server. (Unit: 8kB)'')"
proof
  fix pfloat :: "string \<Rightarrow> real option"
  let ?doc = "projr (snd (generate_schema_yaml py_int pfloat sample_settings sample_categories))"
  let ?p = "[(''type'', PStr ''integer''),
             (''description'',
              PStr ''Sets the number of shared memory buffers used by the server. (Unit: 8kB)''),
             (''default'', PInt 16384),
             (''minimum'', PInt 16),
             (''maximum'', PInt 2147483647)] :: real property"
  let ?cs = "\<lparr>cs_type = ''object'',
              cs_description = ''Settings for the memory category.'',
              cs_properties = [(''shared_buffers'', ?p)]\<rparr>"
  note run = sample_run[of pfloat]
  have g: "generate_schema_yaml py_int pfloat sample_settings sample_categories = ([], Inr ?doc)"
    by (simp add: run)
  have c: "(''memory'', ?cs) \<in> set (s_properties ?doc)"
    by (simp add: run)
  have p: "(''shared_buffers'', ?p) \<in> set (cs_properties ?cs)"
    by simp
  from type_and_description_present[OF g c p]
  have "map_of ?p ''type'' = Some (PStr ''integer'') \<and>
        map_of ?p ''description'' =
          Some (PStr ''Sets the number of shared memory buffers used by the server. (Unit: 8kB)'')"
    by simp
  with g c p
  show "\<exists>ws doc cs p.
       generate_schema_yaml py_int pfloat sample_settings sample_categories = (ws, Inr doc) \<and>
       (''memory'', cs) \<in> set (s_properties doc) \<and>
       (''shared_buffers'', p) \<in> set (cs_properties cs) \<and>
       map_of p ''type'' = Some (PStr ''integer'') \<and>
       map_of p ''description'' =
         Some (PStr ''Sets the number of shared memory buffers used by the server. (Unit: 8kB)'')"
    by blast
qed

section \<open>Order of the generated document\<close>

lemma settings_loop_keys:
  "settings_loop pint pfloat db ns props = (ws, Inr r) \<Longrightarrow>
   set (map fst r) = set (map fst props) \<union> (set ns \<inter> fst ` set db)"
proof (induction ns arbitrary: props ws)
  case Nil
  then show ?case by simp
next
  case (Cons m ns)
  show ?case
  proof (cases "map_of db m")
    case None
    then have m: "m \<notin> fst ` set db" by (simp add: map_of_eq_None_iff)
    from None Cons.prems obtain ws1 where "settings_loop pint pfloat db ns props = (ws1, Inr r)"
      by (auto split: prod.splits)
    from Cons.IH[OF this] m show ?thesis by auto
  next
    case (Some sd)
    then have m: "m \<in> fst ` set db" by (metis map_of_eq_None_iff option.distinct(1))
    from Some Cons.prems obtain w1 q ws1 where
      rest: "settings_loop pint pfloat db ns (AList.update m q props) = (ws1, Inr r)"
      by (auto split: prod.splits sum.splits)
    have "set (map fst (AList.update m q props)) = insert m (set (map fst props))"
      by (auto simp: update_keys)
    with Cons.IH[OF rest] m show ?thesis by auto
  qed
qed

lemma settings_loop_sorted:
  "settings_loop pint pfloat db ns props = (ws, Inr r) \<Longrightarrow> sorted ns \<Longrightarrow>
   sorted_wrt (<) (map fst props) \<Longrightarrow> (\<forall>k\<in>set (map fst props). \<forall>n\<in>set ns. k \<le> n) \<Longrightarrow>
   sorted_wrt (<) (map fst r)"
proof (induction ns arbitrary: props ws)
  case Nil
  then show ?case by simp
next
  case (Cons m ns)
  from Cons.prems(2) have ns: "sorted ns" and m_le: "\<forall>n\<in>set ns. m \<le> n" by simp_all
  from Cons.prems(4) have below: "\<forall>k\<in>set (map fst props). \<forall>n\<in>set ns. k \<le> n"
    and below_m: "\<forall>k\<in>set (map fst props). k \<le> m" by simp_all
  show ?case
  proof (cases "map_of db m")
    case None
    with Cons.prems(1) obtain ws1 where "settings_loop pint pfloat db ns props = (ws1, Inr r)"
      by (auto split: prod.splits)
    from Cons.IH[OF this ns Cons.prems(3) below] show ?thesis .
  next
    case (Some sd)
    with Cons.prems(1) obtain w1 q ws1 where
      rest: "settings_loop pint pfloat db ns (AList.update m q props) = (ws1, Inr r)"
      by (auto split: prod.splits sum.splits)
    let ?ks = "map fst (AList.update m q props)"
    have ks: "?ks = (if m \<in> set (map fst props) then map fst props else map fst props @ [m])"
      by (rule update_keys)
    have srt: "sorted_wrt (<) ?ks"
    proof (cases "m \<in> set (map fst props)")
      case True
      with ks Cons.prems(3) show ?thesis by simp
    next
      case False
      with below_m have "\<forall>k\<in>set (map fst props). k < m" by (metis order_le_imp_less_or_eq)
      with False ks Cons.prems(3) show ?thesis by (simp add: sorted_wrt_append)
    qed
    have "\<forall>k\<in>set ?ks. \<forall>n\<in>set ns. k \<le> n"
      using ks below m_le by (auto split: if_splits)
    from Cons.IH[OF rest ns srt this] show ?thesis .
  qed
qed

lemma settings_loop_order:
  assumes "settings_loop pint pfloat db (sort names) [] = (ws, Inr r)"
  shows "map fst r = sorted_list_of_set (set names \<inter> fst ` set db)"
proof -
  have "sorted_wrt (<) (map fst r)"
    by (rule settings_loop_sorted[OF assms]) simp_all
  then have 1: "sorted (map fst r)" and 2: "distinct (map fst r)"
    by (simp_all add: strict_sorted_iff)
  from settings_loop_keys[OF assms] have 3: "fst ` set r = set names \<inter> fst ` set db"
    by simp
  show ?thesis
    by (rule sorted_distinct_set_unique[OF 1 2]) (simp_all add: 3)
qed

lemma categories_loop_keys:
  "categories_loop pint pfloat db cats props = (ws, Inr r) \<Longrightarrow> distinct (map fst cats) \<Longrightarrow>
   set (map fst cats) \<inter> set (map fst props) = {} \<Longrightarrow>
   map fst r = map fst props @ map fst cats"
proof (induction cats arbitrary: props ws)
  case Nil
  then show ?case by simp
next
  case (Cons a cats)
  obtain d names where a: "a = (d, names)" by (cases a)
  with Cons.prems(1) obtain cp ws1 where
    rest: "categories_loop pint pfloat db cats
             (AList.update d \<lparr>cs_type = ''object'',
                cs_description = ''Settings for the '' @ d @ '' category.'',
                cs_properties = cp\<rparr> props) = (ws1, Inr r)"
    by (auto split: prod.splits sum.splits)
  let ?props = "AList.update d \<lparr>cs_type = ''object'',
                cs_description = ''Settings for the '' @ d @ '' category.'',
                cs_properties = cp\<rparr> props"
  from Cons.prems(3) a have fresh: "d \<notin> set (map fst props)" by auto
  then have ks: "map fst ?props = map fst props @ [d]" by (simp add: update_keys)
  from Cons.prems(2) a have dist: "distinct (map fst cats)" and d: "d \<notin> set (map fst cats)"
    by simp_all
  from Cons.prems(3) d have "set (map fst cats) \<inter> set (map fst ?props) = {}"
    unfolding ks by auto
  from Cons.IH[OF rest dist this] ks a show ?case by simp
qed

text \<open>
  C5. The categories of the generated document are the categories of the category map,
  in the declared order; within a category the descriptors are in strictly ascending
  lexicographic order of the setting names, whatever the order of the declared list:
  they are the declared names found in the database data, sorted.
\<close>

theorem declared_categories_sorted_settings:
  assumes "generate_schema_yaml pint pfloat db cats = (ws, Inr doc)"
    and "distinct (map fst cats)"
  shows "map fst (s_properties doc) = map fst cats \<and>
         (\<forall>c cs names. (c, cs) \<in> set (s_properties doc) \<and> (c, names) \<in> set cats \<longrightarrow>
            sorted_wrt (<) (map fst (cs_properties cs)) \<and>
            map fst (cs_properties cs) = sorted_list_of_set (set names \<inter> fst ` set db))"
proof -
  from assms(1) obtain props where
    loop: "categories_loop pint pfloat db cats [] = (ws, Inr props)"
    and doc: "s_properties doc = props"
    by (auto simp: generate_schema_yaml_def split: prod.splits sum.splits)
  from categories_loop_keys[OF loop assms(2)] doc
  have keys: "map fst (s_properties doc) = map fst cats" by simp
  have "sorted_wrt (<) (map fst (cs_properties cs)) \<and>
        map fst (cs_properties cs) = sorted_list_of_set (set names \<inter> fst ` set db)"
    if cs: "(c, cs) \<in> set (s_properties doc)" and names: "(c, names) \<in> set cats"
    for c cs names
  proof -
    from cs doc have "(c, cs) \<in> set props" by simp
    from categories_loop_entries[OF loop this] obtain names' w1 where
      names': "(c, names') \<in> set cats" and
      inner: "settings_loop pint pfloat db (sort names') [] = (w1, Inr (cs_properties cs))"
      by auto
    from assms(2) names names' have "names' = names"
      by (meson eq_key_imp_eq_value)
    with inner have inner': "settings_loop pint pfloat db (sort names) [] = (w1, Inr (cs_properties cs))"
      by simp
    have "sorted_wrt (<) (map fst (cs_properties cs))"
      by (rule settings_loop_sorted[OF inner']) simp_all
    with settings_loop_order[OF inner'] show ?thesis by simp
  qed
  with keys show ?thesis by blast
qed

theorem declared_categories_sorted_settings_witness:
  "\<forall>pfloat :: string \<Rightarrow> real option.
     \<exists>ws doc cs.
       generate_schema_yaml py_int pfloat sample_settings sample_categories = (ws, Inr doc) \<and>
       distinct (map fst sample_categories) \<and>
       map fst sample_categories = [''memory'', ''logging'', ''other''] \<and>
       map fst (s_properties doc) = [''memory'', ''logging'', ''other''] \<and>
       (''other'', cs) \<in> set (s_properties doc) \<and>
       (''other'', [''jit'', ''fsync'']) \<in> set sample_categories \<and>
       map fst (cs_properties cs) = [''fsync'', ''jit'']"
proof
  fix pfloat :: "string \<Rightarrow> real option"
  let ?doc = "projr (snd (generate_schema_yaml py_int pfloat sample_settings sample_categories))"
  let ?cs = "\<lparr>cs_type = ''object'',
              cs_description = ''Settings for the other category.'',
              cs_properties =
                [(''fsync'',
                  [(''type'', PStr ''boolean''),
                   (''description'', PStr ''Forces synchronization of updates to disk.''),
                   (''default'', PBool True)]),
                 (''jit'',
                  [(''type'', PStr ''boolean''),
                   (''description'', PStr ''Allow JIT compilation.''),
                   (''default'', PBool False)])]\<rparr> :: real category_schema"
  note run = sample_run[of pfloat]
  have g: "generate_schema_yaml py_int pfloat sample_settings sample_categories = ([], Inr ?doc)"
    by (simp add: run)
  have d: "distinct (map fst sample_categories)"
    and k: "map fst sample_categories = [''memory'', ''logging'', ''other'']"
    and n: "(''other'', [''jit'', ''fsync'']) \<in> set sample_categories"
    by (simp_all add: sample_categories_def)
  have c: "(''other'', ?cs) \<in> set (s_properties ?doc)"
    by (simp add: run)
  have s: "sorted_list_of_set (set [''jit'', ''fsync''] \<inter> fst ` set sample_settings) = [''fsync'', ''jit'']"
    by code_simp
  from declared_categories_sorted_settings[OF g d] k
  have r1: "map fst (s_properties ?doc) = [''memory'', ''logging'', ''other'']"
    by simp
  from declared_categories_sorted_settings[OF g d] c n s
  have r2: "map fst (cs_properties ?cs) = [''fsync'', ''jit'']"
    by simp
  show "\<exists>ws doc cs.
       generate_schema_yaml py_int pfloat sample_settings sample_categories = (ws, Inr doc) \<and>
       distinct (map fst sample_categories) \<and>
       map fst sample_categories = [''memory'', ''logging'', ''other''] \<and>
       map fst (s_properties doc) = [''memory'', ''logging'', ''other''] \<and>
       (''other'', cs) \<in> set (s_properties doc) \<and>
       (''other'', [''jit'', ''fsync'']) \<in> set sample_categories \<and>
       map fst (cs_properties cs) = [''fsync'', ''jit'']"
    by (rule exI[of _ "[]"], rule exI[of _ ?doc], rule exI[of _ ?cs], intro conjI)
      (rule g d k r1 c n r2)+
qed

section \<open>Reconciliation\<close>

text \<open>
  C2. The generator is called exactly when the names declared in the category map and
  the keys of the settings mapping are the same set. When they are, the run is the call of
  \<^verbatim>\<open>generate_schema_yaml\<close> on the two inputs: its document is what is written (or what
  the failed write leaves unwritten), its exception is the traceback, its warnings are
  the run's. When they differ the run is the mismatch report over the two sorted
  difference lists: no schema is produced, no file is written, the exit status is not 0.
\<close>

theorem generation_iff_names_match:
  "(generation_invoked (main_body pint pfloat db cats writable) \<longleftrightarrow>
      set (concat (map snd cats)) = set (map fst db)) \<and>
   (set (concat (map snd cats)) = set (map fst db) \<longrightarrow>
      main_body pint pfloat db cats writable =
        (case generate_schema_yaml pint pfloat db cats of
           (ws, Inl e) \<Rightarrow> Traceback ws e
         | (ws, Inr doc) \<Rightarrow> if writable then Written ws doc else WriteError ws doc)) \<and>
   (set (concat (map snd cats)) \<noteq> set (map fst db) \<longrightarrow>
      main_body pint pfloat db cats writable =
        Mismatch (sorted_list_of_set (set (concat (map snd cats)) - set (map fst db)))
                 (sorted_list_of_set (set (map fst db) - set (concat (map snd cats)))) \<and>
      schema_produced (main_body pint pfloat db cats writable) = None \<and>
      output_file (main_body pint pfloat db cats writable) = None \<and>
      exit_status (main_body pint pfloat db cats writable) \<noteq> 0)"
proof -
  let ?Y = "set (concat (map snd cats))" and ?D = "set (map fst db)"
  let ?M = "main_body pint pfloat db cats writable"
  let ?G = "case generate_schema_yaml pint pfloat db cats of
              (ws, Inl e) \<Rightarrow> Traceback ws e
            | (ws, Inr doc) \<Rightarrow> if writable then Written ws doc else WriteError ws doc"
  have fin: "finite (?Y - ?D)" "finite (?D - ?Y)" by simp_all
  have eq: "sorted_list_of_set (?Y - ?D) = [] \<and> sorted_list_of_set (?D - ?Y) = [] \<longleftrightarrow> ?Y = ?D"
    using fin by (auto simp: sorted_list_of_set_eq_Nil_iff)
  show ?thesis
  proof (cases "?Y = ?D")
    case True
    with eq have "sorted_list_of_set (?Y - ?D) = [] \<and> sorted_list_of_set (?D - ?Y) = []" by blast
    then have run: "?M = ?G"
      unfolding main_body_def Let_def by (rule if_P)
    have "generation_invoked ?G"
      by (simp split: prod.splits sum.splits)
    with run have inv: "generation_invoked ?M" by simp
    from True inv have 1: "generation_invoked ?M \<longleftrightarrow> ?Y = ?D" by simp
    from run have 2: "?Y = ?D \<longrightarrow> ?M = ?G" by (rule impI)
    from True have 3: "?Y \<noteq> ?D \<longrightarrow>
        ?M = Mismatch (sorted_list_of_set (?Y - ?D)) (sorted_list_of_set (?D - ?Y)) \<and>
        schema_produced ?M = None \<and> output_file ?M = None \<and> exit_status ?M \<noteq> 0"
      by simp
    show ?thesis by (rule conjI[OF 1 conjI[OF 2 3]])
  next
    case False
    with eq have "\<not> (sorted_list_of_set (?Y - ?D) = [] \<and> sorted_list_of_set (?D - ?Y) = [])" by blast
    then have run: "?M = Mismatch (sorted_list_of_set (?Y - ?D)) (sorted_list_of_set (?D - ?Y))"
      unfolding main_body_def Let_def by (rule if_not_P)
    from False run have 1: "generation_invoked ?M \<longleftrightarrow> ?Y = ?D" by simp
    from False have 2: "?Y = ?D \<longrightarrow> ?M = ?G" by simp
    from run have 3: "?Y \<noteq> ?D \<longrightarrow>
        ?M = Mismatch (sorted_list_of_set (?Y - ?D)) (sorted_list_of_set (?D - ?Y)) \<and>
        schema_produced ?M = None \<and> output_file ?M = None \<and> exit_status ?M \<noteq> 0"
      by simp
    show ?thesis by (rule conjI[OF 1 conjI[OF 2 3]])
  qed
qed

theorem generation_iff_names_match_witness:
  "\<forall>pfloat :: string \<Rightarrow> real option.
     \<exists>doc.
       set (concat (map snd sample_categories)) = set (map fst sample_settings) \<and>
       generate_schema_yaml py_int pfloat sample_settings sample_categories = ([], Inr doc) \<and>
       map fst (s_properties doc) = [''memory'', ''logging'', ''other''] \<and>
       main_body py_int pfloat sample_settings sample_categories True = Written [] doc \<and>
       main_body py_int pfloat sample_settings sample_categories False = WriteError [] doc \<and>
       generation_invoked (main_body py_int pfloat sample_settings sample_categories True) \<and>
       set (concat (map snd [(''memory'', [''work_mem''])])) \<noteq> set (map fst [(''jit'', jit)]) \<and>
       main_body py_int pfloat [(''jit'', jit)] [(''memory'', [''work_mem''])] True =
         Mismatch [''work_mem''] [''jit''] \<and>
       schema_produced (main_body py_int pfloat [(''jit'', jit)] [(''memory'', [''work_mem''])] True) = None \<and>
       output_file (main_body py_int pfloat [(''jit'', jit)] [(''memory'', [''work_mem''])] True) = None \<and>
       exit_status (main_body py_int pfloat [(''jit'', jit)] [(''memory'', [''work_mem''])] True) \<noteq> 0"
proof
  fix pfloat :: "string \<Rightarrow> real option"
  obtain doc where g: "generate_schema_yaml py_int pfloat sample_settings sample_categories = ([], Inr doc)"
    and k: "map fst (s_properties doc) = [''memory'', ''logging'', ''other'']"
    by (simp add: sample_run)
  have same: "set (concat (map snd sample_categories)) = set (map fst sample_settings)"
    by (auto simp: sample_categories_def sample_settings_def)
  have diff: "set (concat (map snd [(''memory'', [''work_mem''])])) \<noteq> set (map fst [(''jit'', jit)])"
    by simp
  have l1: "sorted_list_of_set (set (concat (map snd [(''memory'', [''work_mem''])])) -
              set (map fst [(''jit'', jit)])) = [''work_mem'']"
    and l2: "sorted_list_of_set (set (map fst [(''jit'', jit)]) -
              set (concat (map snd [(''memory'', [''work_mem''])]))) = [''jit'']"
    by simp_all
  note match = generation_iff_names_match[of py_int pfloat sample_settings sample_categories]
  note differ = generation_iff_names_match[of py_int pfloat "[(''jit'', jit)]" "[(''memory'', [''work_mem''])]" True,
      THEN conjunct2, THEN conjunct2, rule_format, OF diff]
  have w: "main_body py_int pfloat sample_settings sample_categories True = Written [] doc"
    using match[of True, THEN conjunct2, THEN conjunct1, rule_format, OF same] by (simp add: g)
  have f: "main_body py_int pfloat sample_settings sample_categories False = WriteError [] doc"
    using match[of False, THEN conjunct2, THEN conjunct1, rule_format, OF same] by (simp add: g)
  have i: "generation_invoked (main_body py_int pfloat sample_settings sample_categories True)"
    using match[of True, THEN conjunct1] same by simp
  have m: "main_body py_int pfloat [(''jit'', jit)] [(''memory'', [''work_mem''])] True =
         Mismatch [''work_mem''] [''jit'']"
    using differ[THEN conjunct1] unfolding l1 l2 .
  have sp: "schema_produced (main_body py_int pfloat [(''jit'', jit)] [(''memory'', [''work_mem''])] True) = None"
    by (rule differ[THEN conjunct2, THEN conjunct1])
  have ofl: "output_file (main_body py_int pfloat [(''jit'', jit)] [(''memory'', [''work_mem''])] True) = None"
    by (rule differ[THEN conjunct2, THEN conjunct2, THEN conjunct1])
  have es: "exit_status (main_body py_int pfloat [(''jit'', jit)] [(''memory'', [''work_mem''])] True) \<noteq> 0"
    by (rule differ[THEN conjunct2, THEN conjunct2, THEN conjunct2])
  show "\<exists>doc.
       set (concat (map snd sample_categories)) = set (map fst sample_settings) \<and>
       generate_schema_yaml py_int pfloat sample_settings sample_categories = ([], Inr doc) \<and>
       map fst (s_properties doc) = [''memory'', ''logging'', ''other''] \<and>
       main_body py_int pfloat sample_settings sample_categories True = Written [] doc \<and>
       main_body py_int pfloat sample_settings sample_categories False = WriteError [] doc \<and>
       generation_invoked (main_body py_int pfloat sample_settings sample_categories True) \<and>
       set (concat (map snd [(''memory'', [''work_mem''])])) \<noteq> set (map fst [(''jit'', jit)]) \<and>
       main_body py_int pfloat [(''jit'', jit)] [(''memory'', [''work_mem''])] True =
         Mismatch [''work_mem''] [''jit''] \<and>
       schema_produced (main_body py_int pfloat [(''jit'', jit)] [(''memory'', [''work_mem''])] True) = None \<and>
       output_file (main_body py_int pfloat [(''jit'', jit)] [(''memory'', [''work_mem''])] True) = None \<and>
       exit_status (main_body py_int pfloat [(''jit'', jit)] [(''memory'', [''work_mem''])] True) \<noteq> 0"
    by (rule exI[of _ doc], intro conjI) (rule same g k w f i diff m sp ofl es)+
qed

lemma sample_mismatch:
  "main_body py_int (pfloat :: string \<Rightarrow> real option) [(''jit'', jit)] [(''memory'', [''work_mem''])] True =
     Mismatch [''work_mem''] [''jit'']"
  by code_simp

section \<open>Duplicate names in a category\<close>

lemma settings_loop_cong:
  assumes "\<And>props. snd (settings_loop pint pfloat db xs props) = snd (settings_loop pint pfloat db ys props)"
  shows "snd (settings_loop pint pfloat db (x # xs) props) = snd (settings_loop pint pfloat db (x # ys) props)"
  using assms by (simp add: case_prod_unfold Let_def split: option.splits sum.splits)

lemma settings_loop_twice:
  "snd (settings_loop pint pfloat db (x # x # xs) props) = snd (settings_loop pint pfloat db (x # xs) props)"
  by (simp add: case_prod_unfold Let_def split: option.splits sum.splits)

lemma sorted_head_dup:
  assumes "sorted (x # xs)" and "x \<in> set xs"
  shows "\<exists>zs. xs = x # zs"
proof (cases xs)
  case Nil
  with assms(2) show ?thesis by simp
next
  case (Cons h zs)
  from assms(1) Cons have "x \<le> h" by simp
  moreover from assms Cons have "h \<le> x" by auto
  ultimately have "h = x" by simp
  with Cons show ?thesis by simp
qed

lemma settings_loop_remdups:
  "sorted xs \<Longrightarrow>
   snd (settings_loop pint pfloat db (remdups xs) props) = snd (settings_loop pint pfloat db xs props)"
proof (induction xs arbitrary: props)
  case Nil
  then show ?case by simp
next
  case (Cons x xs)
  from Cons.prems have srt: "sorted xs" by simp
  show ?case
  proof (cases "x \<in> set xs")
    case True
    with Cons.prems obtain zs where zs: "xs = x # zs" using sorted_head_dup by blast
    have "snd (settings_loop pint pfloat db (remdups (x # xs)) props) =
          snd (settings_loop pint pfloat db (remdups xs) props)"
      using True by simp
    also have "\<dots> = snd (settings_loop pint pfloat db xs props)"
      by (rule Cons.IH[OF srt])
    also have "\<dots> = snd (settings_loop pint pfloat db (x # xs) props)"
      unfolding zs by (rule settings_loop_twice[symmetric])
    finally show ?thesis .
  next
    case False
    then have "remdups (x # xs) = x # remdups xs" by simp
    moreover have "snd (settings_loop pint pfloat db (x # remdups xs) props) =
                   snd (settings_loop pint pfloat db (x # xs) props)"
      by (rule settings_loop_cong) (rule Cons.IH[OF srt])
    ultimately show ?thesis by simp
  qed
qed

lemma settings_loop_set:
  assumes "set xs = set ys"
  shows "snd (settings_loop pint pfloat db (sort xs) props) =
         snd (settings_loop pint pfloat db (sort ys) props)"
proof -
  have "remdups (sort xs) = remdups (sort ys)"
    by (rule sorted_distinct_set_unique) (simp_all add: sorted_remdups assms)
  then have "snd (settings_loop pint pfloat db (remdups (sort xs)) props) =
             snd (settings_loop pint pfloat db (remdups (sort ys)) props)"
    by simp
  then show ?thesis by (simp add: settings_loop_remdups)
qed

lemma categories_loop_set:
  "list_all2 (\<lambda>a b. fst a = fst b \<and> set (snd a) = set (snd b)) cats cats' \<Longrightarrow>
   snd (categories_loop pint pfloat db cats props) = snd (categories_loop pint pfloat db cats' props)"
proof (induction cats cats' arbitrary: props rule: list_all2_induct)
  case Nil
  then show ?case by simp
next
  case (Cons a cats b cats')
  obtain c xs where a: "a = (c, xs)" by (cases a)
  obtain c' ys where b: "b = (c', ys)" by (cases b)
  from Cons.hyps(1) a b have c: "c' = c" and s: "set xs = set ys" by simp_all
  have inner: "snd (settings_loop pint pfloat db (sort xs) []) =
               snd (settings_loop pint pfloat db (sort ys) [])"
    by (rule settings_loop_set[OF s])
  show ?case
  proof (cases "snd (settings_loop pint pfloat db (sort xs) [])")
    case (Inl e)
    with inner have "snd (settings_loop pint pfloat db (sort ys) []) = Inl e" by simp
    with Inl show ?thesis
      by (simp add: a b c case_prod_unfold Let_def)
  next
    case (Inr cp)
    with inner have "snd (settings_loop pint pfloat db (sort ys) []) = Inr cp" by simp
    with Inr Cons.IH show ?thesis
      by (simp add: a b c case_prod_unfold Let_def)
  qed
qed

lemma generate_schema_yaml_set:
  assumes "list_all2 (\<lambda>a b. fst a = fst b \<and> set (snd a) = set (snd b)) cats cats'"
  shows "snd (generate_schema_yaml pint pfloat db cats) = snd (generate_schema_yaml pint pfloat db cats')"
proof -
  from categories_loop_set[OF assms]
  have "snd (categories_loop pint pfloat db cats []) = snd (categories_loop pint pfloat db cats' [])" .
  then show ?thesis
    by (simp add: generate_schema_yaml_def case_prod_unfold split: sum.splits)
qed

lemma main_body_observations:
  assumes "set (concat (map snd cats)) = set (concat (map snd cats'))"
    and "snd (generate_schema_yaml pint pfloat db cats) = snd (generate_schema_yaml pint pfloat db cats')"
  shows "generation_invoked (main_body pint pfloat db cats w) =
           generation_invoked (main_body pint pfloat db cats' w) \<and>
         exit_status (main_body pint pfloat db cats w) =
           exit_status (main_body pint pfloat db cats' w) \<and>
         schema_produced (main_body pint pfloat db cats w) =
           schema_produced (main_body pint pfloat db cats' w) \<and>
         output_file (main_body pint pfloat db cats w) =
           output_file (main_body pint pfloat db cats' w)"
proof -
  obtain ws r where g: "generate_schema_yaml pint pfloat db cats = (ws, r)"
    by (cases "generate_schema_yaml pint pfloat db cats")
  obtain ws' r' where g': "generate_schema_yaml pint pfloat db cats' = (ws', r')"
    by (cases "generate_schema_yaml pint pfloat db cats'")
  from assms(2) g g' have "r' = r" by simp
  with g g' assms(1) show ?thesis
    by (cases r) (simp_all add: main_body_def Let_def)
qed

lemma generated_keys_distinct:
  assumes "generate_schema_yaml pint pfloat db cats = (ws, Inr doc)"
    and "(c, cs) \<in> set (s_properties doc)"
  shows "distinct (map fst (cs_properties cs))"
proof -
  from assms(1) obtain props where
    loop: "categories_loop pint pfloat db cats [] = (ws, Inr props)"
    and doc: "s_properties doc = props"
    by (auto simp: generate_schema_yaml_def split: prod.splits sum.splits)
  from assms(2) doc have "(c, cs) \<in> set props" by simp
  from categories_loop_entries[OF loop this] obtain names w1 where
    inner: "settings_loop pint pfloat db (sort names) [] = (w1, Inr (cs_properties cs))"
    by auto
  have "sorted_wrt (<) (map fst (cs_properties cs))"
    by (rule settings_loop_sorted[OF inner]) simp_all
  then show ?thesis by (simp add: strict_sorted_iff)
qed

lemma filter_key_single:
  "distinct (map fst xs) \<Longrightarrow> (n, p) \<in> set xs \<Longrightarrow> filter (\<lambda>e. fst e = n) xs = [(n, p)]"
proof (induction xs)
  case Nil
  then show ?case by simp
next
  case (Cons a xs)
  from Cons.prems(1) have fresh: "fst a \<notin> fst ` set xs" and dist: "distinct (map fst xs)"
    by simp_all
  show ?case
  proof (cases "a = (n, p)")
    case True
    with fresh have "filter (\<lambda>e. fst e = n) xs = []"
      by (auto simp: filter_empty_conv)
    with True show ?thesis by simp
  next
    case False
    with Cons.prems(2) have mem: "(n, p) \<in> set xs" by simp
    then have "n \<in> fst ` set xs" by (rule rev_image_eqI) simp
    with fresh have "fst a \<noteq> n" by auto
    with Cons.IH[OF dist mem] show ?thesis by simp
  qed
qed

lemma declared_name_descriptor:
  assumes g: "generate_schema_yaml pint pfloat db cats = (ws, Inr doc)"
    and d: "distinct (map fst cats)"
    and c: "(c, names) \<in> set cats"
    and n: "n \<in> set names"
    and f: "n \<in> fst ` set db"
  shows "(\<exists>cs. (c, cs) \<in> set (s_properties doc)) \<and>
         (\<forall>cs. (c, cs) \<in> set (s_properties doc) \<longrightarrow>
            (\<exists>p sd ws'. filter (\<lambda>e. fst e = n) (cs_properties cs) = [(n, p)] \<and>
               map_of db n = Some sd \<and> make_prop pint pfloat n sd = (ws', Inr p)))"
proof -
  from g obtain props where
    loop: "categories_loop pint pfloat db cats [] = (ws, Inr props)"
    and doc: "s_properties doc = props"
    by (auto simp: generate_schema_yaml_def split: prod.splits sum.splits)
  from categories_loop_keys[OF loop d] have "map fst props = map fst cats" by simp
  then have "set (map fst props) = set (map fst cats)" by simp
  moreover have "c \<in> set (map fst cats)"
    using c by (simp add: image_iff) (rule bexI[of _ "(c, names)"], simp_all)
  ultimately have "c \<in> fst ` set props" by simp
  with doc have ex: "\<exists>cs. (c, cs) \<in> set (s_properties doc)" by auto
  have "\<exists>p sd ws'. filter (\<lambda>e. fst e = n) (cs_properties cs) = [(n, p)] \<and>
           map_of db n = Some sd \<and> make_prop pint pfloat n sd = (ws', Inr p)"
    if cs: "(c, cs) \<in> set (s_properties doc)" for cs
  proof -
    from cs doc have "(c, cs) \<in> set props" by simp
    from categories_loop_entries[OF loop this] obtain names' w1 where
      names': "(c, names') \<in> set cats" and
      inner: "settings_loop pint pfloat db (sort names') [] = (w1, Inr (cs_properties cs))"
      by auto
    from d c names' have "names' = names" by (meson eq_key_imp_eq_value)
    with inner have inner': "settings_loop pint pfloat db (sort names) [] = (w1, Inr (cs_properties cs))"
      by simp
    from settings_loop_keys[OF inner'] n f have "n \<in> fst ` set (cs_properties cs)" by simp
    then obtain p where p: "(n, p) \<in> set (cs_properties cs)" by force
    have "sorted_wrt (<) (map fst (cs_properties cs))"
      by (rule settings_loop_sorted[OF inner']) simp_all
    then have "distinct (map fst (cs_properties cs))" by (simp add: strict_sorted_iff)
    then have one: "filter (\<lambda>e. fst e = n) (cs_properties cs) = [(n, p)]"
      using p by (rule filter_key_single)
    from generated_property[OF g cs p] obtain sd ws' where
      "map_of db n = Some sd" and "make_prop pint pfloat n sd = (ws', Inr p)" by blast
    with one show ?thesis by blast
  qed
  with ex show ?thesis by blast
qed

text \<open>
  C9. A name listed more than once in a category counts once. With the repeated
  occurrences removed from every list, the declared name set is the same (so the
  reconciliation decides the same), the generator returns the same document or raises
  the same exception, and the run ends with the same status, document and file. In a
  generated document the names of a category are pairwise distinct, and a name declared
  in a category and found in the database data, however often it is listed, has exactly
  one entry in that category of the document: the descriptor the loop body makes for
  its row. (The error stream is not part of this: a warning for a repeated name is
  printed once per occurrence.)
\<close>

theorem duplicates_count_once:
  "set (concat (map snd (map (\<lambda>(c, names). (c, remdups names)) cats))) =
     set (concat (map snd cats)) \<and>
   snd (generate_schema_yaml pint pfloat db (map (\<lambda>(c, names). (c, remdups names)) cats)) =
     snd (generate_schema_yaml pint pfloat db cats) \<and>
   generation_invoked (main_body pint pfloat db (map (\<lambda>(c, names). (c, remdups names)) cats) w) =
     generation_invoked (main_body pint pfloat db cats w) \<and>
   exit_status (main_body pint pfloat db (map (\<lambda>(c, names). (c, remdups names)) cats) w) =
     exit_status (main_body pint pfloat db cats w) \<and>
   schema_produced (main_body pint pfloat db (map (\<lambda>(c, names). (c, remdups names)) cats) w) =
     schema_produced (main_body pint pfloat db cats w) \<and>
   output_file (main_body pint pfloat db (map (\<lambda>(c, names). (c, remdups names)) cats) w) =
     output_file (main_body pint pfloat db cats w) \<and>
   (\<forall>ws doc c cs.
      generate_schema_yaml pint pfloat db cats = (ws, Inr doc) \<and> (c, cs) \<in> set (s_properties doc) \<longrightarrow>
      distinct (map fst (cs_properties cs))) \<and>
   (\<forall>ws doc c names n.
      generate_schema_yaml pint pfloat db cats = (ws, Inr doc) \<and> distinct (map fst cats) \<and>
      (c, names) \<in> set cats \<and> n \<in> set names \<and> n \<in> fst ` set db \<longrightarrow>
      (\<exists>cs. (c, cs) \<in> set (s_properties doc)) \<and>
      (\<forall>cs. (c, cs) \<in> set (s_properties doc) \<longrightarrow>
         (\<exists>p sd ws'. filter (\<lambda>e. fst e = n) (cs_properties cs) = [(n, p)] \<and>
            map_of db n = Some sd \<and> make_prop pint pfloat n sd = (ws', Inr p))))"
proof -
  let ?cats = "map (\<lambda>(c, names). (c, remdups names)) cats"
  have rel: "list_all2 (\<lambda>a b. fst a = fst b \<and> set (snd a) = set (snd b)) ?cats cats"
    by (simp add: list_all2_map1 list_all2_same case_prod_unfold)
  have names: "set (concat (map snd ?cats)) = set (concat (map snd cats))"
    by (auto simp: case_prod_unfold)
  have doc: "snd (generate_schema_yaml pint pfloat db ?cats) = snd (generate_schema_yaml pint pfloat db cats)"
    by (rule generate_schema_yaml_set[OF rel])
  note obs = main_body_observations[OF names doc, of w]
  have dist: "\<forall>ws doc c cs.
      generate_schema_yaml pint pfloat db cats = (ws, Inr doc) \<and> (c, cs) \<in> set (s_properties doc) \<longrightarrow>
      distinct (map fst (cs_properties cs))"
    using generated_keys_distinct[of pint pfloat db cats] by blast
  have one: "\<forall>ws doc c names n.
      generate_schema_yaml pint pfloat db cats = (ws, Inr doc) \<and> distinct (map fst cats) \<and>
      (c, names) \<in> set cats \<and> n \<in> set names \<and> n \<in> fst ` set db \<longrightarrow>
      (\<exists>cs. (c, cs) \<in> set (s_properties doc)) \<and>
      (\<forall>cs. (c, cs) \<in> set (s_properties doc) \<longrightarrow>
         (\<exists>p sd ws'. filter (\<lambda>e. fst e = n) (cs_properties cs) = [(n, p)] \<and>
            map_of db n = Some sd \<and> make_prop pint pfloat n sd = (ws', Inr p)))"
  proof (intro allI impI)
    fix ws doc c names n
    assume h: "generate_schema_yaml pint pfloat db cats = (ws, Inr doc) \<and> distinct (map fst cats) \<and>
      (c, names) \<in> set cats \<and> n \<in> set names \<and> n \<in> fst ` set db"
    show "(\<exists>cs. (c, cs) \<in> set (s_properties doc)) \<and>
      (\<forall>cs. (c, cs) \<in> set (s_properties doc) \<longrightarrow>
         (\<exists>p sd ws'. filter (\<lambda>e. fst e = n) (cs_properties cs) = [(n, p)] \<and>
            map_of db n = Some sd \<and> make_prop pint pfloat n sd = (ws', Inr p)))"
      by (rule declared_name_descriptor[of pint pfloat db cats ws doc c names n])
        (simp_all add: h)
  qed
  show ?thesis
    by (rule conjI[OF names conjI[OF doc conjI[OF obs[THEN conjunct1]
          conjI[OF obs[THEN conjunct2, THEN conjunct1]
            conjI[OF obs[THEN conjunct2, THEN conjunct2, THEN conjunct1]
              conjI[OF obs[THEN conjunct2, THEN conjunct2, THEN conjunct2]
                conjI[OF dist one]]]]]]])
qed

lemma duplicate_run:
  "generate_schema_yaml py_int (pfloat :: string \<Rightarrow> real option)
     [(''jit'', jit), (''fsync'', fsync)] [(''other'', [''jit'', ''fsync'', ''jit''])] =
     ([],
      Inr \<lparr>s_type = ''object'',
           s_description =
             ''Schema for PostgreSQL configuration settings (postgresql.conf), grouped by category.'',
           s_properties =
             [(''other'',
               \<lparr>cs_type = ''object'',
                cs_description = ''Settings for the other category.'',
                cs_properties =
                  [(''fsync'',
                    [(''type'', PStr ''boolean''),
                     (''description'', PStr ''Forces synchronization of updates to disk.''),
                     (''default'', PBool True)]),
                   (''jit'',
                    [(''type'', PStr ''boolean''),
                     (''description'', PStr ''Allow JIT compilation.''),
                     (''default'', PBool False)])]\<rparr>)]\<rparr>)"
  by code_simp

theorem duplicates_count_once_witness:
  "\<forall>pfloat :: string \<Rightarrow> real option.
     \<exists>ws doc cs.
       generate_schema_yaml py_int pfloat [(''jit'', jit), (''fsync'', fsync)]
         [(''other'', [''jit'', ''fsync'', ''jit''])] = (ws, Inr doc) \<and>
       (''other'', cs) \<in> set (s_properties doc) \<and>
       distinct (map fst (cs_properties cs)) \<and>
       filter (\<lambda>e. fst e = ''jit'') (cs_properties cs) =
         [(''jit'',
           [(''type'', PStr ''boolean''),
            (''description'', PStr ''Allow JIT compilation.''),
            (''default'', PBool False)])] \<and>
       snd (generate_schema_yaml py_int pfloat [(''jit'', jit), (''fsync'', fsync)]
              [(''other'', [''fsync'', ''jit''])]) = Inr doc \<and>
       exit_status (main_body py_int pfloat [(''jit'', jit), (''fsync'', fsync)]
              [(''other'', [''jit'', ''fsync'', ''jit''])] True) =
       exit_status (main_body py_int pfloat [(''jit'', jit), (''fsync'', fsync)]
              [(''other'', [''fsync'', ''jit''])] True)"
proof
  fix pfloat :: "string \<Rightarrow> real option"
  let ?db = "[(''jit'', jit), (''fsync'', fsync)]"
  let ?cats = "[(''other'', [''jit'', ''fsync'', ''jit''])]"
  let ?q = "[(''type'', PStr ''boolean''),
             (''description'', PStr ''Allow JIT compilation.''),
             (''default'', PBool False)] :: real property"
  let ?cs = "\<lparr>cs_type = ''object'',
              cs_description = ''Settings for the other category.'',
              cs_properties =
                [(''fsync'',
                  [(''type'', PStr ''boolean''),
                   (''description'', PStr ''Forces synchronization of updates to disk.''),
                   (''default'', PBool True)]),
                 (''jit'', ?q)]\<rparr>"
  let ?doc = "\<lparr>s_type = ''object'',
               s_description =
                 ''Schema for PostgreSQL configuration settings (postgresql.conf), grouped by category.'',
               s_properties = [(''other'', ?cs)]\<rparr>"
  note inst = duplicates_count_once[of ?cats py_int pfloat ?db True]
  have g: "generate_schema_yaml py_int pfloat ?db ?cats = ([], Inr ?doc)"
    by (rule duplicate_run)
  have c: "(''other'', ?cs) \<in> set (s_properties ?doc)"
    by simp
  have rd: "map (\<lambda>(c, names). (c, remdups names)) ?cats = [(''other'', [''fsync'', ''jit''])]"
    by simp
  have sg: "snd (generate_schema_yaml py_int pfloat ?db ?cats) = Inr ?doc"
    by (simp add: g)
  have dc: "distinct (map fst ?cats)" and mc: "(''other'', [''jit'', ''fsync'', ''jit'']) \<in> set ?cats"
    and mn: "''jit'' \<in> set [''jit'', ''fsync'', ''jit'']" and md: "''jit'' \<in> fst ` set ?db"
    by simp_all
  note same_doc = inst[THEN conjunct2, THEN conjunct1]
  note same_status = inst[THEN conjunct2, THEN conjunct2, THEN conjunct2, THEN conjunct1]
  note one_each = inst[THEN conjunct2, THEN conjunct2, THEN conjunct2, THEN conjunct2,
      THEN conjunct2, THEN conjunct2, THEN conjunct1, rule_format]
  note exactly = inst[THEN conjunct2, THEN conjunct2, THEN conjunct2, THEN conjunct2,
      THEN conjunct2, THEN conjunct2, THEN conjunct2, rule_format,
      OF conjI[OF g conjI[OF dc conjI[OF mc conjI[OF mn md]]]]]
  have d: "distinct (map fst (cs_properties ?cs))"
    by (rule one_each[OF conjI[OF g c]])
  from exactly[THEN conjunct2, rule_format, OF c]
  obtain p where "filter (\<lambda>e. fst e = ''jit'') (cs_properties ?cs) = [(''jit'', p)]"
    by blast
  then have x: "filter (\<lambda>e. fst e = ''jit'') (cs_properties ?cs) = [(''jit'', ?q)]"
    by simp
  have s: "snd (generate_schema_yaml py_int pfloat ?db [(''other'', [''fsync'', ''jit''])]) = Inr ?doc"
    using same_doc unfolding rd sg .
  have e: "exit_status (main_body py_int pfloat ?db ?cats True) =
      exit_status (main_body py_int pfloat ?db [(''other'', [''fsync'', ''jit''])] True)"
    using same_status unfolding rd by (rule sym)
  show "\<exists>ws doc cs.
       generate_schema_yaml py_int pfloat ?db ?cats = (ws, Inr doc) \<and>
       (''other'', cs) \<in> set (s_properties doc) \<and>
       distinct (map fst (cs_properties cs)) \<and>
       filter (\<lambda>e. fst e = ''jit'') (cs_properties cs) = [(''jit'', ?q)] \<and>
       snd (generate_schema_yaml py_int pfloat ?db [(''other'', [''fsync'', ''jit''])]) = Inr doc \<and>
       exit_status (main_body py_int pfloat ?db ?cats True) =
       exit_status (main_body py_int pfloat ?db [(''other'', [''fsync'', ''jit''])] True)"
    by (rule exI[of _ "[]"], rule exI[of _ ?doc], rule exI[of _ ?cs], intro conjI)
      (rule g c d x s e)+
qed

section \<open>Reset values that do not convert\<close>

lemma add_default_bad_reset:
  assumes "reset_val sd = Some rv"
    and "vartype sd = ''integer'' \<and> pint rv = None \<or> vartype sd = ''real'' \<and> pfloat rv = None"
  shows "add_default pint pfloat n sd p = ([CouldNotConvert rv n], p)"
  using assms by (auto simp: add_default_def)

lemma add_default_no_reset:
  "add_default pint pfloat n (sd\<lparr>reset_val := None\<rparr>) p = ([], p)"
  by (simp add: add_default_def)

lemma add_bounds_reset: "add_bounds pint pfloat (sd\<lparr>reset_val := v\<rparr>) p = add_bounds pint pfloat sd p"
  by (simp add: add_bounds_def split del: if_split cong: if_cong)

lemma add_enum_reset: "add_enum (sd\<lparr>reset_val := v\<rparr>) p = add_enum sd p"
  by (simp add: add_enum_def)

lemma make_prop_bad_reset:
  assumes "reset_val sd = Some rv"
    and "vartype sd = ''integer'' \<and> pint rv = None \<or> vartype sd = ''real'' \<and> pfloat rv = None"
  shows "make_prop pint pfloat n sd =
           (CouldNotConvert rv n # fst (make_prop pint pfloat n (sd\<lparr>reset_val := None\<rparr>)),
            snd (make_prop pint pfloat n (sd\<lparr>reset_val := None\<rparr>)))"
  by (simp add: make_prop_def Let_def
      add_default_bad_reset[of sd rv pint pfloat, OF assms] add_default_no_reset
      add_bounds_reset add_enum_reset)

lemma settings_loop_db_cong:
  assumes "\<And>m. map_option (\<lambda>sd. snd (make_prop pint pfloat m sd)) (map_of db m) =
                map_option (\<lambda>sd. snd (make_prop pint pfloat m sd)) (map_of db' m)"
  shows "snd (settings_loop pint pfloat db ns props) = snd (settings_loop pint pfloat db' ns props)"
proof (induction ns arbitrary: props)
  case Nil
  then show ?case by simp
next
  case (Cons m ns)
  show ?case
  proof (cases "map_of db m")
    case None
    with assms[of m] have "map_of db' m = None" by simp
    with None Cons.IH show ?thesis by (simp add: case_prod_unfold Let_def)
  next
    case (Some sd)
    with assms[of m] obtain sd' where sd': "map_of db' m = Some sd'"
      and same: "snd (make_prop pint pfloat m sd) = snd (make_prop pint pfloat m sd')"
      by (cases "map_of db' m") auto
    show ?thesis
    proof (cases "snd (make_prop pint pfloat m sd)")
      case (Inl e)
      with same have "snd (make_prop pint pfloat m sd') = Inl e" by simp
      with Inl Some sd' show ?thesis by (simp add: case_prod_unfold Let_def)
    next
      case (Inr q)
      with same have "snd (make_prop pint pfloat m sd') = Inr q" by simp
      with Inr Some sd' Cons.IH show ?thesis by (simp add: case_prod_unfold Let_def)
    qed
  qed
qed

lemma categories_loop_db_cong:
  assumes "\<And>m. map_option (\<lambda>sd. snd (make_prop pint pfloat m sd)) (map_of db m) =
                map_option (\<lambda>sd. snd (make_prop pint pfloat m sd)) (map_of db' m)"
  shows "snd (categories_loop pint pfloat db cats props) = snd (categories_loop pint pfloat db' cats props)"
proof (induction cats arbitrary: props)
  case Nil
  then show ?case by simp
next
  case (Cons a cats)
  obtain c names where a: "a = (c, names)" by (cases a)
  have inner: "snd (settings_loop pint pfloat db (sort names) []) =
               snd (settings_loop pint pfloat db' (sort names) [])"
    by (rule settings_loop_db_cong) (rule assms)
  show ?case
  proof (cases "snd (settings_loop pint pfloat db (sort names) [])")
    case (Inl e)
    with inner have "snd (settings_loop pint pfloat db' (sort names) []) = Inl e" by simp
    with Inl show ?thesis by (simp add: a case_prod_unfold Let_def)
  next
    case (Inr cp)
    with inner have "snd (settings_loop pint pfloat db' (sort names) []) = Inr cp" by simp
    with Inr Cons.IH show ?thesis by (simp add: a case_prod_unfold Let_def)
  qed
qed

lemma settings_loop_warnings:
  "settings_loop pint pfloat db ns props = (ws, Inr r) \<Longrightarrow> n \<in> set ns \<Longrightarrow>
   map_of db n = Some sd \<Longrightarrow> set (fst (make_prop pint pfloat n sd)) \<subseteq> set ws"
proof (induction ns arbitrary: props ws)
  case Nil
  then show ?case by simp
next
  case (Cons m ns)
  show ?case
  proof (cases "map_of db m")
    case None
    with Cons.prems(1) obtain ws1 where
      rest: "settings_loop pint pfloat db ns props = (ws1, Inr r)" and ws: "ws = SettingNotFound m # ws1"
      by (auto split: prod.splits)
    from None Cons.prems(2,3) have "n \<in> set ns" by auto
    from Cons.IH[OF rest this Cons.prems(3)] ws show ?thesis by auto
  next
    case (Some sd')
    with Cons.prems(1) obtain w1 q ws1 where
      mk: "make_prop pint pfloat m sd' = (w1, Inr q)" and
      rest: "settings_loop pint pfloat db ns (AList.update m q props) = (ws1, Inr r)" and
      ws: "ws = w1 @ ws1"
      by (auto split: prod.splits sum.splits)
    show ?thesis
    proof (cases "n = m")
      case True
      with Some Cons.prems(3) mk ws show ?thesis by auto
    next
      case False
      with Cons.prems(2) have "n \<in> set ns" by simp
      from Cons.IH[OF rest this Cons.prems(3)] ws show ?thesis by auto
    qed
  qed
qed

lemma categories_loop_warnings:
  "categories_loop pint pfloat db cats props = (ws, Inr r) \<Longrightarrow> (c, names) \<in> set cats \<Longrightarrow>
   n \<in> set names \<Longrightarrow> map_of db n = Some sd \<Longrightarrow>
   set (fst (make_prop pint pfloat n sd)) \<subseteq> set ws"
proof (induction cats arbitrary: props ws)
  case Nil
  then show ?case by simp
next
  case (Cons a cats)
  obtain d xs where a: "a = (d, xs)" by (cases a)
  with Cons.prems(1) obtain w1 cp ws1 where
    inner: "settings_loop pint pfloat db (sort xs) [] = (w1, Inr cp)" and
    rest: "categories_loop pint pfloat db cats
             (AList.update d \<lparr>cs_type = ''object'',
                cs_description = ''Settings for the '' @ d @ '' category.'',
                cs_properties = cp\<rparr> props) = (ws1, Inr r)" and
    ws: "ws = w1 @ ws1"
    by (auto split: prod.splits sum.splits)
  from Cons.prems(2) a consider "(c, names) = (d, xs)" | "(c, names) \<in> set cats" by auto
  then show ?case
  proof cases
    case 1
    with Cons.prems(3) have "n \<in> set (sort xs)" by simp
    from settings_loop_warnings[OF inner this Cons.prems(4)] ws show ?thesis by auto
  next
    case 2
    from Cons.IH[OF rest 2 Cons.prems(3,4)] ws show ?thesis by auto
  qed
qed

lemma generate_schema_yaml_db_cong:
  assumes "\<And>m. map_option (\<lambda>sd. snd (make_prop pint pfloat m sd)) (map_of db m) =
                map_option (\<lambda>sd. snd (make_prop pint pfloat m sd)) (map_of db' m)"
  shows "snd (generate_schema_yaml pint pfloat db cats) = snd (generate_schema_yaml pint pfloat db' cats)"
proof -
  have "snd (categories_loop pint pfloat db cats []) = snd (categories_loop pint pfloat db' cats [])"
    by (rule categories_loop_db_cong) (rule assms)
  then show ?thesis
    by (simp add: generate_schema_yaml_def case_prod_unfold split: sum.splits)
qed

text \<open>
  C4. Let the reset value of a setting of type \<open>integer\<close> or \<open>real\<close> be one the
  builtin cannot parse. Then the generator returns exactly what it returns when that
  setting has no reset value at all (the same document, or the same exception where a
  bound of some setting is malformed): the failed conversion aborts nothing. When a
  document is generated and the setting is declared in a category, the warning for it
  is on the error stream, and its descriptor has no \<open>default\<close>.
\<close>

theorem malformed_default_tolerated:
  assumes "map_of db n = Some sd"
    and "reset_val sd = Some rv"
    and "vartype sd = ''integer'' \<and> pint rv = None \<or> vartype sd = ''real'' \<and> pfloat rv = None"
  shows "snd (generate_schema_yaml pint pfloat db cats) =
           snd (generate_schema_yaml pint pfloat (AList.update n (sd\<lparr>reset_val := None\<rparr>) db) cats) \<and>
         (\<forall>ws doc c names.
            generate_schema_yaml pint pfloat db cats = (ws, Inr doc) \<and>
            (c, names) \<in> set cats \<and> n \<in> set names \<longrightarrow>
            CouldNotConvert rv n \<in> set ws) \<and>
         (\<forall>ws doc c cs p.
            generate_schema_yaml pint pfloat db cats = (ws, Inr doc) \<and>
            (c, cs) \<in> set (s_properties doc) \<and> (n, p) \<in> set (cs_properties cs) \<longrightarrow>
            map_of p ''default'' = None)"
proof -
  note bad = make_prop_bad_reset[of sd rv pint pfloat, OF assms(2,3)]
  have sn: "snd (make_prop pint pfloat n sd) = snd (make_prop pint pfloat n (sd\<lparr>reset_val := None\<rparr>))"
    by (simp add: bad[of n])
  have same: "snd (generate_schema_yaml pint pfloat db cats) =
           snd (generate_schema_yaml pint pfloat (AList.update n (sd\<lparr>reset_val := None\<rparr>) db) cats)"
  proof (rule generate_schema_yaml_db_cong)
    fix m
    show "map_option (\<lambda>sd. snd (make_prop pint pfloat m sd)) (map_of db m) =
          map_option (\<lambda>sd. snd (make_prop pint pfloat m sd))
            (map_of (AList.update n (sd\<lparr>reset_val := None\<rparr>) db) m)"
      using assms(1) sn by (simp add: map_of_update)
  qed
  have warned: "CouldNotConvert rv n \<in> set ws"
    if g: "generate_schema_yaml pint pfloat db cats = (ws, Inr doc)"
      and c: "(c, names) \<in> set cats" and n: "n \<in> set names"
    for ws doc c names
  proof -
    from g obtain props where loop: "categories_loop pint pfloat db cats [] = (ws, Inr props)"
      by (auto simp: generate_schema_yaml_def split: prod.splits sum.splits)
    from categories_loop_warnings[OF loop c n assms(1)] bad[of n] show ?thesis by simp
  qed
  have omitted: "map_of p ''default'' = None"
    if g: "generate_schema_yaml pint pfloat db cats = (ws, Inr doc)"
      and c: "(c, cs) \<in> set (s_properties doc)" and p: "(n, p) \<in> set (cs_properties cs)"
    for ws doc c cs p
  proof -
    from generated_property[OF g c p] assms(1)
    obtain ws' where "make_prop pint pfloat n sd = (ws', Inr p)" by auto
    from make_prop_default[OF this] assms(2,3) show ?thesis by auto
  qed
  from same warned omitted show ?thesis by blast
qed

lemma bad_reset_run:
  "generate_schema_yaml py_int (pfloat :: string \<Rightarrow> real option)
     [(''work_mem'', bad_reset), (''fsync'', fsync)]
     [(''memory'', [''work_mem'']), (''other'', [''fsync''])] =
     ([CouldNotConvert ''abc'' ''work_mem''],
      Inr \<lparr>s_type = ''object'',
           s_description =
             ''Schema for PostgreSQL configuration settings (postgresql.conf), grouped by category.'',
           s_properties =
             [(''memory'',
               \<lparr>cs_type = ''object'',
                cs_description = ''Settings for the memory category.'',
                cs_properties =
                  [(''work_mem'',
                    [(''type'', PStr ''integer''),
                     (''description'',
                      PStr ''Sets the maximum memory to be used for query workspaces. (Unit: kB)''),
                     (''minimum'', PInt 64),
                     (''maximum'', PInt 2147483647)])]\<rparr>),
              (''other'',
               \<lparr>cs_type = ''object'',
                cs_description = ''Settings for the other category.'',
                cs_properties =
                  [(''fsync'',
                    [(''type'', PStr ''boolean''),
                     (''description'', PStr ''Forces synchronization of updates to disk.''),
                     (''default'', PBool True)])]\<rparr>)]\<rparr>)"
  by code_simp

theorem malformed_default_tolerated_witness:
  "\<forall>pfloat :: string \<Rightarrow> real option.
     \<exists>ws doc cs p.
       map_of [(''work_mem'', bad_reset), (''fsync'', fsync)] ''work_mem'' = Some bad_reset \<and>
       reset_val bad_reset = Some ''abc'' \<and>
       vartype bad_reset = ''integer'' \<and> py_int ''abc'' = None \<and>
       generate_schema_yaml py_int pfloat [(''work_mem'', bad_reset), (''fsync'', fsync)]
         [(''memory'', [''work_mem'']), (''other'', [''fsync''])] = (ws, Inr doc) \<and>
       CouldNotConvert ''abc'' ''work_mem'' \<in> set ws \<and>
       (''memory'', cs) \<in> set (s_properties doc) \<and>
       (''work_mem'', p) \<in> set (cs_properties cs) \<and>
       map_of p ''default'' = None \<and>
       map fst (s_properties doc) = [''memory'', ''other'']"
proof
  fix pfloat :: "string \<Rightarrow> real option"
  let ?db = "[(''work_mem'', bad_reset), (''fsync'', fsync)]"
  let ?cats = "[(''memory'', [''work_mem'']), (''other'', [''fsync''])]"
  let ?p = "[(''type'', PStr ''integer''),
             (''description'',
              PStr ''Sets the maximum memory to be used for query workspaces. (Unit: kB)''),
             (''minimum'', PInt 64),
             (''maximum'', PInt 2147483647)] :: real property"
  let ?cs = "\<lparr>cs_type = ''object'',
              cs_description = ''Settings for the memory category.'',
              cs_properties = [(''work_mem'', ?p)]\<rparr>"
  let ?cs' = "\<lparr>cs_type = ''object'',
               cs_description = ''Settings for the other category.'',
               cs_properties =
                 [(''fsync'',
                   [(''type'', PStr ''boolean''),
                    (''description'', PStr ''Forces synchronization of updates to disk.''),
                    (''default'', PBool True)])]\<rparr> :: real category_schema"
  let ?doc = "\<lparr>s_type = ''object'',
               s_description =
                 ''Schema for PostgreSQL configuration settings (postgresql.conf), grouped by category.'',
               s_properties = [(''memory'', ?cs), (''other'', ?cs')]\<rparr>"
  have row: "map_of ?db ''work_mem'' = Some bad_reset" by simp
  have rv: "reset_val bad_reset = Some ''abc''" and ty: "vartype bad_reset = ''integer''"
    by (simp_all add: bad_reset_def)
  have bad: "py_int ''abc'' = None" by code_simp
  from ty bad have h: "vartype bad_reset = ''integer'' \<and> py_int ''abc'' = None \<or>
      vartype bad_reset = ''real'' \<and> pfloat ''abc'' = None" by simp
  have g: "generate_schema_yaml py_int pfloat ?db ?cats = ([CouldNotConvert ''abc'' ''work_mem''], Inr ?doc)"
    by (rule bad_reset_run)
  have c: "(''memory'', ?cs) \<in> set (s_properties ?doc)" by simp
  have p: "(''work_mem'', ?p) \<in> set (cs_properties ?cs)" by simp
  have m: "(''memory'', [''work_mem'']) \<in> set ?cats" by simp
  have n: "''work_mem'' \<in> set [''work_mem'']" by simp
  have k: "map fst (s_properties ?doc) = [''memory'', ''other'']" by simp
  note inst = malformed_default_tolerated[of ?db "''work_mem''" bad_reset "''abc''" py_int pfloat ?cats,
      OF row rv h]
  note warned = inst[THEN conjunct2, THEN conjunct1, rule_format]
  note omitted = inst[THEN conjunct2, THEN conjunct2, rule_format]
  have w: "CouldNotConvert ''abc'' ''work_mem'' \<in> set [CouldNotConvert ''abc'' ''work_mem'']"
    by (rule warned[OF conjI[OF g conjI[OF m n]]])
  have d: "map_of ?p ''default'' = None"
    by (rule omitted[OF conjI[OF g conjI[OF c p]]])
  show "\<exists>ws doc cs p.
       map_of ?db ''work_mem'' = Some bad_reset \<and>
       reset_val bad_reset = Some ''abc'' \<and>
       vartype bad_reset = ''integer'' \<and> py_int ''abc'' = None \<and>
       generate_schema_yaml py_int pfloat ?db ?cats = (ws, Inr doc) \<and>
       CouldNotConvert ''abc'' ''work_mem'' \<in> set ws \<and>
       (''memory'', cs) \<in> set (s_properties doc) \<and>
       (''work_mem'', p) \<in> set (cs_properties cs) \<and>
       map_of p ''default'' = None \<and>
       map fst (s_properties doc) = [''memory'', ''other'']"
    by (rule exI[of _ "[CouldNotConvert ''abc'' ''work_mem'']"], rule exI[of _ ?doc],
        rule exI[of _ ?cs], rule exI[of _ ?p], intro conjI)
      (rule row rv ty bad g w c p d k)+
qed

section \<open>Bounds that do not convert\<close>

lemma malformed_bound_raises:
  assumes "vartype sd = ''integer''" and "min_val sd = Some s" and "pint s = None"
  shows "snd (make_prop pint pfloat n sd) = Inl (ValueError s)"
  using assms
  by (simp add: make_prop_def Let_def add_bounds_def and_then_def set_parsed_def case_prod_unfold)

text \<open>
  C1 asks that a bound of an \<open>integer\<close> or \<open>real\<close> setting that does not parse be
  handled like a malformed default: warning, bound left out, generation goes on. The
  code converts the bounds outside the \<^verbatim>\<open>try\<close> of lines 82 to 92. On the rows below,
  where the lower bound of \<open>work_mem\<close> is \<open>abc\<close>, the \<^verbatim>\<open>ValueError\<close> of line 96 leaves
  the generator: nothing was printed to the error stream, no document is returned (so
  \<open>fsync\<close>, declared after it, gets no descriptor), and the run ends in a traceback with
  status 1 and no output file.
\<close>

theorem malformed_bound_aborts:
  "generate_schema_yaml py_int (pfloat :: string \<Rightarrow> real option)
     [(''work_mem'', bad_bound), (''fsync'', fsync)]
     [(''memory'', [''work_mem'']), (''other'', [''fsync''])] =
     ([], Inl (ValueError ''abc'')) \<and>
   main_body py_int pfloat
     [(''work_mem'', bad_bound), (''fsync'', fsync)]
     [(''memory'', [''work_mem'']), (''other'', [''fsync''])] True =
     Traceback [] (ValueError ''abc'') \<and>
   exit_status (Traceback [] (ValueError ''abc'') :: real outcome) = 1 \<and>
   output_file (Traceback [] (ValueError ''abc'') :: real outcome) = None"
  by code_simp

section \<open>The category file\<close>

lemma get_yaml_categories_mapping:
  assumes "map_of m (YStr ''categories'') = None \<or>
           (\<exists>v. map_of m (YStr ''categories'') = Some v \<and> (\<forall>d. v \<noteq> YMap d))"
  shows "get_yaml_categories yaml_path (Parsed (YMap m)) = SysExit 1 (CategoriesKeyError yaml_path)"
proof -
  from assms show ?thesis
  proof
    assume none: "map_of m (YStr ''categories'') = None"
    then have "YStr ''categories'' \<notin> fst ` set m" by (simp add: map_of_eq_None_iff)
    then show ?thesis by (simp add: get_yaml_categories_def)
  next
    assume "\<exists>v. map_of m (YStr ''categories'') = Some v \<and> (\<forall>d. v \<noteq> YMap d)"
    then obtain v where v: "map_of m (YStr ''categories'') = Some v" and nd: "\<forall>d. v \<noteq> YMap d"
      by blast
    from v have "YStr ''categories'' \<in> fst ` set m"
      by (metis map_of_eq_None_iff option.distinct(1))
    with v nd show ?thesis
      by (cases v) (simp_all add: get_yaml_categories_def)
  qed
qed

lemma get_yaml_categories_returns:
  assumes "map_of m (YStr ''categories'') = Some (YMap d)"
  shows "get_yaml_categories yaml_path (Parsed (YMap m)) = Returned d"
proof -
  from assms have "YStr ''categories'' \<in> fst ` set m"
    by (metis map_of_eq_None_iff option.distinct(1))
  with assms show ?thesis by (simp add: get_yaml_categories_def)
qed

lemma get_yaml_categories_file_errors:
  "get_yaml_categories yaml_path FileNotFound = SysExit 1 (YamlFileNotFound yaml_path)"
  "get_yaml_categories yaml_path Malformed = SysExit 1 YamlParseError"
  by (simp_all add: get_yaml_categories_def)

text \<open>
  C3 asks for the specific diagnostic and a non-zero exit also when the top level of the
  file is not a mapping, an empty document included. For an empty document
  \<^verbatim>\<open>yaml.safe_load\<close> returns \<^verbatim>\<open>None\<close>, and the test \<^verbatim>\<open>'categories' in data\<close> of line 28
  raises \<^verbatim>\<open>TypeError\<close>, which neither \<^verbatim>\<open>except\<close> clause catches: the message of line 31
  is not printed, the call ends with the exception. The same happens for a top-level
  number or boolean, and for a top-level string or list that contains \<open>categories\<close>, where
  the subscript of line 28 raises.
\<close>

theorem empty_document_raises:
  "get_yaml_categories yaml_path (Parsed YNull) = Raised TypeError \<and>
   get_yaml_categories yaml_path (Parsed (YInt 42)) = Raised TypeError \<and>
   get_yaml_categories yaml_path (Parsed (YBool True)) = Raised TypeError \<and>
   get_yaml_categories yaml_path (Parsed (YSeq [YStr ''categories''])) = Raised TypeError \<and>
   get_yaml_categories yaml_path (Parsed (YStr ''categories'')) = Raised TypeError"
  by (simp add: get_yaml_categories_def)

end
